theory Spec2Isabelle
  imports Complex_Main
begin

section \<open>Common data\<close>

text \<open>
  A naive \<^verbatim>\<open>datetime\<close> is its number of microseconds since a fixed epoch, a
  \<^verbatim>\<open>date\<close> its number of days since that epoch. \<^verbatim>\<open>dt.date()\<close> and \<^verbatim>\<open>dt.hour\<close>
  are read off by division; \<^verbatim>\<open>timedelta\<close> values are microsecond counts.
\<close>

type_synonym datetime = int
type_synonym date = int

definition us_per_hour :: int where
  "us_per_hour = 3600000000"

definition us_per_day :: int where
  "us_per_day = 86400000000"

definition date_of :: "datetime \<Rightarrow> date" where
  "date_of t = t div us_per_day"

definition hour_of :: "datetime \<Rightarrow> int" where
  "hour_of t = (t mod us_per_day) div us_per_hour"

definition timedelta_days :: "int \<Rightarrow> int" where
  "timedelta_days n = n * us_per_day"

text \<open>\<^verbatim>\<open>(a - b).days\<close>: a timedelta is normalised with the days rounded down.\<close>

definition days_between :: "datetime \<Rightarrow> datetime \<Rightarrow> int" where
  "days_between a b = (a - b) div us_per_day"

datatype py_error =
  TypeError | ValueError | ZeroDivisionError | KeyError | AttributeError | CollectorError

text \<open>Python's \<^verbatim>\<open>max\<close> of a list: \<^verbatim>\<open>ValueError\<close> on the empty list.\<close>

fun py_max :: "int list \<Rightarrow> py_error + int" where
  "py_max [] = Inl ValueError"
| "py_max (x # xs) = Inr (fold max xs x)"

section \<open>JSON values and the data collectors\<close>

text \<open>
  A JSON value as Python holds it; \<^verbatim>\<open>JTime\<close> is the string that
  \<^verbatim>\<open>datetime.isoformat()\<close> makes of a timestamp. A payload is a dict, a list of
  key/value pairs; it is truthy iff it is not empty.
\<close>

datatype json =
    JNull
  | JBool bool
  | JNum real
  | JStr string
  | JTime datetime
  | JList "json list"
  | JObj "(string \<times> json) list"

type_synonym payload = "(string \<times> json) list"

definition truthy :: "payload \<Rightarrow> bool" where
  "truthy p = (p \<noteq> [])"

fun json_truthy :: "json \<Rightarrow> bool" where
  "json_truthy JNull = False"
| "json_truthy (JBool b) = b"
| "json_truthy (JNum x) = (x \<noteq> 0)"
| "json_truthy (JStr s) = (s \<noteq> [])"
| "json_truthy (JTime t) = True"
| "json_truthy (JList xs) = (xs \<noteq> [])"
| "json_truthy (JObj kvs) = (kvs \<noteq> [])"

text \<open>
  \<^verbatim>\<open>DataCollector\<close> (data_collectors.py). Each source method runs in
  \<^verbatim>\<open>try/except Exception\<close>: it returns its dict, \<^verbatim>\<open>{}\<close> after an exception, and the
  two that return inside an \<^verbatim>\<open>if\<close> return None when the provider has no rows. What
  the three sources answer at the time of a call is the input of the collector.
\<close>

record market_sources =
  yahoo_finance :: payload
  fed_rates :: "payload option"
  fear_greed_index :: "payload option"

definition source_json :: "payload option \<Rightarrow> json" where
  "source_json r = (case r of None \<Rightarrow> JNull | Some d \<Rightarrow> JObj d)"

text \<open>\<^verbatim>\<open>f"{(n/3)*100:.1f}%"\<close> for the number of truthy sources, which is at most 3.\<close>

definition success_rate :: "nat \<Rightarrow> string" where
  "success_rate n =
     (if n = 0 then ''0.0%'' else if n = 1 then ''33.3%''
      else if n = 2 then ''66.7%'' else ''100.0%'')"

text \<open>
  \<^verbatim>\<open>collect_all_metrics\<close>: the timestamp, the three sources and the
  \<^verbatim>\<open>data_quality\<close> entry that counts the truthy sources. It has no statement that
  raises, and its result always has five keys.
\<close>

definition collect_all_metrics :: "market_sources \<Rightarrow> datetime \<Rightarrow> payload" where
  "collect_all_metrics src now =
     (let all_data = [(''collection_timestamp'', JTime now),
                      (''yahoo_finance'', JObj (yahoo_finance src)),
                      (''fed_rates'', source_json (fed_rates src)),
                      (''fear_greed_index'', source_json (fear_greed_index src))];
          successful_sources =
            length (filter (\<lambda>(source, d). source \<noteq> ''collection_timestamp'' \<and> json_truthy d)
                      all_data)
      in all_data
         @ [(''data_quality'',
             JObj [(''sources_available'', JNum (real successful_sources)),
                   (''total_sources'', JNum 3),
                   (''collection_success_rate'', JStr (success_rate successful_sources))])])"

text \<open>
  \<^verbatim>\<open>CryptoDataCollector\<close> (crypto_data_collector.py). The three source methods
  catch every exception and return an empty list or dict then. A coin of the top
  list is the dict that \<^verbatim>\<open>get_top_cryptocurrencies\<close> builds, which always has the
  \<^verbatim>\<open>symbol\<close> entry: it is kept as the symbol and the other entries. The derivatives
  are what Binance answers for the symbols asked.
\<close>

record crypto_sources =
  top_cryptocurrencies :: "(string \<times> payload) list"
  derivatives_data :: "string list \<Rightarrow> payload"
  market_fear_greed :: payload

definition coin_json :: "string \<times> payload \<Rightarrow> json" where
  "coin_json c = JObj ((''symbol'', JStr (fst c)) # snd c)"

definition collect_all_crypto_data :: "crypto_sources \<Rightarrow> datetime \<Rightarrow> payload" where
  "collect_all_crypto_data src now =
     (let top_coins = top_cryptocurrencies src;
          top_symbols = map fst (take 5 top_coins);
          derivatives = derivatives_data src top_symbols;
          fear_greed = market_fear_greed src
      in [(''top_cryptocurrencies'', JList (map coin_json top_coins)),
          (''derivatives_data'', JObj derivatives),
          (''fear_greed_index'', JObj fear_greed),
          (''last_updated'', JTime now),
          (''data_sources'',
           JObj [(''coingecko'', JBool (top_coins \<noteq> [])),
                 (''binance_derivatives'', JBool (derivatives \<noteq> [])),
                 (''fear_greed'', JBool (fear_greed \<noteq> []))])])"

section \<open>cache_manager.py\<close>

text \<open>
  A cache file is missing, not JSON, JSON that is not an object, or an object. Of
  an object the reads use three entries. The \<^verbatim>\<open>last_update\<close> entry is absent or
  falsy (\<^verbatim>\<open>Absent\<close>), a truthy value that is not a string (\<^verbatim>\<open>NotString\<close>, on which
  \<^verbatim>\<open>fromisoformat\<close> raises \<^verbatim>\<open>TypeError\<close>), a string that is not an ISO timestamp
  (\<^verbatim>\<open>Malformed\<close>, \<^verbatim>\<open>ValueError\<close>), or a timestamp.
\<close>

datatype stamp = Absent | NotString | Malformed | At datetime

record envelope =
  last_update :: stamp
  data :: "payload option"
  update_count :: "nat option"

datatype cache_file = Missing | Corrupt | NotDict | Stored envelope

text \<open>
  \<^verbatim>\<open>_is_cache_valid\<close>, with \<^verbatim>\<open>self.update_hours\<close>, the cache file and
  \<^verbatim>\<open>datetime.now()\<close> as arguments. The \<^verbatim>\<open>try\<close> has \<^verbatim>\<open>except Exception\<close>: every
  exception inside it (the JSON not loading, \<^verbatim>\<open>.get\<close> on a value that is not a
  dict, \<^verbatim>\<open>fromisoformat\<close> failing, \<^verbatim>\<open>max\<close> of an empty list) ends in
  \<^verbatim>\<open>return False\<close>.
\<close>

definition is_cache_valid :: "int list \<Rightarrow> cache_file \<Rightarrow> datetime \<Rightarrow> bool" where
  "is_cache_valid update_hours file now =
     (case file of
        Missing \<Rightarrow> False
      | Corrupt \<Rightarrow> False
      | NotDict \<Rightarrow> False
      | Stored cache_data \<Rightarrow>
          (case last_update cache_data of
             Absent \<Rightarrow> False
           | NotString \<Rightarrow> False
           | Malformed \<Rightarrow> False
           | At lu \<Rightarrow>
               if date_of lu \<noteq> date_of now then False
               else
                 let current_hour = hour_of now;
                     last_update_hour = hour_of lu
                 in (case find (\<lambda>hour. current_hour < hour) update_hours of
                       None \<Rightarrow>
                         (case py_max update_hours of
                            Inl _ \<Rightarrow> False
                          | Inr m \<Rightarrow> last_update_hour \<ge> m)
                     | Some next_update_hour \<Rightarrow>
                         (case find (\<lambda>hour. current_hour \<ge> hour) (rev update_hours) of
                            None \<Rightarrow>
                              if date_of lu = date_of (now - timedelta_days 1)
                              then (case py_max update_hours of
                                      Inl _ \<Rightarrow> False
                                    | Inr m \<Rightarrow> last_update_hour \<ge> m)
                              else False
                          | Some last_planned_hour \<Rightarrow>
                              last_update_hour \<ge> last_planned_hour))))"

text \<open>The hours of \<^verbatim>\<open>CacheManager.__init__\<close>.\<close>

definition update_hours :: "int list" where
  "update_hours = [9, 21]"

definition crypto_update_hours :: "int list" where
  "crypto_update_hours = [8, 20]"

text \<open>A wall-clock time: day number, hour, minute.\<close>

definition at_time :: "int \<Rightarrow> int \<Rightarrow> int \<Rightarrow> datetime" where
  "at_time d h m = d * us_per_day + h * us_per_hour + m * 60000000"

text \<open>
  \<^verbatim>\<open>_load_cache\<close> and \<^verbatim>\<open>_load_crypto_cache\<close> (\<^verbatim>\<open>except Exception\<close>): None when the
  file is missing, does not load or is not an object, else the \<^verbatim>\<open>data\<close> entry.
\<close>

definition load_cache :: "cache_file \<Rightarrow> payload option" where
  "load_cache file =
     (case file of
        Missing \<Rightarrow> None
      | Corrupt \<Rightarrow> None
      | NotDict \<Rightarrow> None
      | Stored cache_data \<Rightarrow> data cache_data)"

text \<open>\<^verbatim>\<open>if cached_data:\<close> on the result of a load: neither None nor empty.\<close>

definition loaded_truthy :: "payload option \<Rightarrow> bool" where
  "loaded_truthy c = (case c of None \<Rightarrow> False | Some p \<Rightarrow> truthy p)"

text \<open>\<^verbatim>\<open>_save_cache\<close>: the file is replaced; the market envelope has no counter.\<close>

definition save_cache :: "payload \<Rightarrow> datetime \<Rightarrow> cache_file" where
  "save_cache d now = Stored \<lparr>last_update = At now, data = Some d, update_count = None\<rparr>"

text \<open>
  \<^verbatim>\<open>_save_crypto_cache\<close>: the counter is 1, or one more than the counter of the file
  that exists and loads as an object (0 when that file has no counter); the bare
  \<^verbatim>\<open>except\<close> around the read keeps the 1.
\<close>

definition save_crypto_cache :: "payload \<Rightarrow> cache_file \<Rightarrow> datetime \<Rightarrow> cache_file" where
  "save_crypto_cache d file now =
     (let count = (case file of
                     Missing \<Rightarrow> 1
                   | Corrupt \<Rightarrow> 1
                   | NotDict \<Rightarrow> 1
                   | Stored existing \<Rightarrow>
                       (case update_count existing of None \<Rightarrow> 0 | Some n \<Rightarrow> n) + 1)
      in Stored \<lparr>last_update = At now, data = Some d, update_count = Some count\<rparr>)"

text \<open>
  The loop of \<^verbatim>\<open>_is_crypto_cache_valid\<close> over the hours: a write counts when it lies
  within 30 minutes after a scheduled hour of the query day. \<^verbatim>\<open>now.replace(hour=h)\<close>
  raises \<^verbatim>\<open>ValueError\<close> for an hour outside 0..23, which the function catches and
  answers False.
\<close>

fun crypto_slot_loop :: "int list \<Rightarrow> datetime \<Rightarrow> datetime \<Rightarrow> bool" where
  "crypto_slot_loop [] lu now = False"
| "crypto_slot_loop (hour # hours) lu now =
     (if hour < 0 \<or> 23 < hour then False
      else
        let scheduled_time = date_of now * us_per_day + hour * us_per_hour
        in if scheduled_time \<le> lu \<and> lu \<le> scheduled_time + 30 * 60000000 then True
           else crypto_slot_loop hours lu now)"

text \<open>
  \<^verbatim>\<open>_is_crypto_cache_valid\<close> catches \<^verbatim>\<open>JSONDecodeError\<close>, \<^verbatim>\<open>ValueError\<close> and
  \<^verbatim>\<open>KeyError\<close> only. On JSON that is not an object \<^verbatim>\<open>cache_data.get\<close> raises
  \<^verbatim>\<open>AttributeError\<close>, and on a \<^verbatim>\<open>last_update\<close> that is not a string
  \<^verbatim>\<open>fromisoformat\<close> raises \<^verbatim>\<open>TypeError\<close>; both leave the function.
\<close>

definition is_crypto_cache_valid :: "int list \<Rightarrow> cache_file \<Rightarrow> datetime \<Rightarrow> py_error + bool" where
  "is_crypto_cache_valid hours file now =
     (case file of
        Missing \<Rightarrow> Inr False
      | Corrupt \<Rightarrow> Inr False
      | NotDict \<Rightarrow> Inl AttributeError
      | Stored cache_data \<Rightarrow>
          (case last_update cache_data of
             Absent \<Rightarrow> Inr False
           | NotString \<Rightarrow> Inl TypeError
           | Malformed \<Rightarrow> Inr False
           | At lu \<Rightarrow>
               if date_of lu \<noteq> date_of now then Inr False
               else Inr (crypto_slot_loop hours lu now)))"

text \<open>
  What a call of the underlying collector does: it raises, or it returns a payload.
  The collectors of this repository always return.
\<close>

datatype collect_outcome = Raises | Returns payload

definition market_collector :: "market_sources \<Rightarrow> datetime \<Rightarrow> collect_outcome" where
  "market_collector src now = Returns (collect_all_metrics src now)"

definition crypto_collector :: "crypto_sources \<Rightarrow> datetime \<Rightarrow> collect_outcome" where
  "crypto_collector src now = Returns (collect_all_crypto_data src now)"

text \<open>
  \<^verbatim>\<open>get_market_data\<close>: the result, or the exception that leaves the function, and
  the cache file afterwards. The call of the collector stands outside any \<^verbatim>\<open>try\<close>,
  and what it returns is saved and returned whatever it holds.
\<close>

definition get_market_data ::
  "bool \<Rightarrow> cache_file \<Rightarrow> collect_outcome \<Rightarrow> datetime \<Rightarrow> (py_error + payload) \<times> cache_file" where
  "get_market_data force_update file collector now =
     (if \<not> force_update \<and> is_cache_valid update_hours file now
         \<and> loaded_truthy (load_cache file)
      then (case load_cache file of
              Some cached_data \<Rightarrow> (Inr cached_data, file)
            | None \<Rightarrow> (Inr [], file))
      else
        (case collector of
           Raises \<Rightarrow> (Inl CollectorError, file)
         | Returns fresh_data \<Rightarrow> (Inr fresh_data, save_cache fresh_data now)))"

text \<open>
  \<^verbatim>\<open>get_crypto_data\<close>. The validity check stands before the \<^verbatim>\<open>try\<close> and is
  evaluated only when \<^verbatim>\<open>force_update\<close> is false; an exception of it leaves the
  function. The collector is called inside the \<^verbatim>\<open>try\<close>: a falsy result and an
  exception both fall back to the cached payload, or to the empty dict.
\<close>

definition stale_or_empty :: "cache_file \<Rightarrow> payload" where
  "stale_or_empty file =
     (case load_cache file of
        None \<Rightarrow> []
      | Some cached_data \<Rightarrow> if truthy cached_data then cached_data else [])"

definition refresh_crypto ::
  "cache_file \<Rightarrow> collect_outcome \<Rightarrow> datetime \<Rightarrow> (py_error + payload) \<times> cache_file" where
  "refresh_crypto file collector now =
     (case collector of
        Returns crypto_data \<Rightarrow>
          if truthy crypto_data
          then (Inr crypto_data, save_crypto_cache crypto_data file now)
          else (Inr (stale_or_empty file), file)
      | Raises \<Rightarrow> (Inr (stale_or_empty file), file))"

definition get_crypto_data ::
  "bool \<Rightarrow> cache_file \<Rightarrow> collect_outcome \<Rightarrow> datetime \<Rightarrow> (py_error + payload) \<times> cache_file" where
  "get_crypto_data force_update file collector now =
     (if force_update then refresh_crypto file collector now
      else
        (case is_crypto_cache_valid crypto_update_hours file now of
           Inl e \<Rightarrow> (Inl e, file)
         | Inr valid \<Rightarrow>
             if valid \<and> loaded_truthy (load_cache file)
             then (case load_cache file of
                     Some cached_data \<Rightarrow> (Inr cached_data, file)
                   | None \<Rightarrow> (Inr [], file))
             else refresh_crypto file collector now))"

section \<open>historical_collector.py: CollectionProgress\<close>

text \<open>
  The failure texts the collector stores are Russian sentences with numbers filled
  in; they are kept as constructors carrying the numbers:
  \<^verbatim>\<open>NoDataForRequest n\<close> for "no data for request n",
  \<^verbatim>\<open>FetchErrorForRequest n\<close> for "error getting the data for request n",
  \<^verbatim>\<open>CollectedOnly c t\<close> for "collected only c/t days".
\<close>

datatype err_msg = NoDataForRequest int | FetchErrorForRequest int | CollectedOnly int int

record CollectionProgress =
  coin_id :: string
  total_days :: int
  collected_days :: int
  start_date :: datetime
  end_date :: datetime
  current_date :: datetime
  status :: string
  errors :: "err_msg list"
  last_error :: "err_msg option"
  collection_start :: "datetime option"
  collection_end :: "datetime option"

text \<open>Python's true division of two ints: a float, or \<^verbatim>\<open>ZeroDivisionError\<close>.\<close>

definition py_truediv :: "int \<Rightarrow> int \<Rightarrow> py_error + real" where
  "py_truediv a b = (if b = 0 then Inl ZeroDivisionError else Inr (real_of_int a / real_of_int b))"

definition progress_percentage :: "'a CollectionProgress_scheme \<Rightarrow> py_error + real" where
  "progress_percentage p =
     (if total_days p = 0 then Inr 0
      else (case py_truediv (collected_days p) (total_days p) of
              Inl e \<Rightarrow> Inl e
            | Inr q \<Rightarrow> Inr (q * 100)))"

section \<open>database_manager.py\<close>

text \<open>
  The nullable numeric columns of a \<^verbatim>\<open>daily_prices\<close> row, which are also the
  entries that \<^verbatim>\<open>save_daily_data\<close> reads from a record with \<^verbatim>\<open>record.get\<close>
  (None for a missing key). Floats are reals.
\<close>

record daily_values =
  v_open :: "real option"
  v_high :: "real option"
  v_low :: "real option"
  v_close :: "real option"
  v_volume :: "real option"
  v_market_cap :: "real option"
  v_circulating_supply :: "real option"
  v_total_supply :: "real option"
  v_fdv :: "real option"
  v_price_change_24h :: "real option"
  v_volume_change_24h :: "real option"

text \<open>
  A record handed to \<^verbatim>\<open>save_daily_data\<close>: its \<^verbatim>\<open>date\<close> entry (None when the key is
  missing or null) and the other entries.
\<close>

record daily_record =
  d_date :: "date option"
  d_values :: daily_values

text \<open>
  A stored row: the \<^verbatim>\<open>AUTOINCREMENT\<close> id, the key columns \<^verbatim>\<open>coin_id\<close> and \<^verbatim>\<open>date\<close>
  (both \<^verbatim>\<open>NOT NULL\<close>, \<^verbatim>\<open>UNIQUE(coin_id, date)\<close>) and the value columns. The
  \<^verbatim>\<open>created_at\<close> column is left out.
\<close>

record price_row =
  row_id :: nat
  row_coin :: string
  row_date :: date
  row_values :: daily_values

record coin_metadata =
  m_name :: "string option"
  m_symbol :: "string option"
  m_launch_date :: string
  m_max_supply :: "real option"
  m_current_supply :: "real option"
  m_algorithm :: string
  m_consensus :: string
  m_description :: "string option"
  m_website :: "string option"

record stats_row =
  s_coin :: string
  s_collection_date :: date
  s_records_added :: int
  s_records_updated :: int
  s_errors_count :: int
  s_collection_time_seconds :: real
  s_status :: string

record database =
  daily_prices :: "price_row list"
  daily_seq :: nat
  coin_metadata_tbl :: "(string \<times> coin_metadata) list"
  collection_stats :: "stats_row list"

text \<open>
  \<^verbatim>\<open>INSERT OR REPLACE INTO daily_prices\<close>: the rows that conflict on
  \<^verbatim>\<open>(coin_id, date)\<close> are deleted and the new row is inserted under a fresh id.
\<close>

definition same_key :: "string \<Rightarrow> date \<Rightarrow> price_row \<Rightarrow> bool" where
  "same_key coin d r = (row_coin r = coin \<and> row_date r = d)"

definition insert_or_replace :: "string \<Rightarrow> date \<Rightarrow> daily_values \<Rightarrow> database \<Rightarrow> database" where
  "insert_or_replace coin d vals dbs =
     dbs\<lparr>daily_prices :=
           filter (\<lambda>r. \<not> same_key coin d r) (daily_prices dbs)
           @ [\<lparr>row_id = daily_seq dbs + 1, row_coin = coin, row_date = d, row_values = vals\<rparr>],
         daily_seq := daily_seq dbs + 1\<rparr>"

text \<open>
  The loop of \<^verbatim>\<open>save_daily_data\<close>. A record without a date raises inside the
  \<^verbatim>\<open>try\<close> (\<^verbatim>\<open>KeyError\<close>, or the \<^verbatim>\<open>NOT NULL\<close> constraint) and is skipped; every
  executed statement has \<^verbatim>\<open>rowcount\<close> 1, so it counts as saved.
\<close>

fun save_daily_loop :: "string \<Rightarrow> daily_record list \<Rightarrow> int \<times> database \<Rightarrow> int \<times> database" where
  "save_daily_loop coin [] (saved_count, dbs) = (saved_count, dbs)"
| "save_daily_loop coin (r # rs) (saved_count, dbs) =
     (case d_date r of
        None \<Rightarrow> save_daily_loop coin rs (saved_count, dbs)
      | Some d \<Rightarrow>
          save_daily_loop coin rs (saved_count + 1, insert_or_replace coin d (d_values r) dbs))"

definition save_daily_data :: "string \<Rightarrow> daily_record list \<Rightarrow> database \<Rightarrow> int \<times> database" where
  "save_daily_data coin records dbs = save_daily_loop coin records (0, dbs)"

text \<open>\<^verbatim>\<open>INSERT OR REPLACE INTO coin_metadata\<close>, keyed by \<^verbatim>\<open>coin_id\<close>.\<close>

definition save_coin_metadata :: "string \<Rightarrow> coin_metadata \<Rightarrow> database \<Rightarrow> database" where
  "save_coin_metadata coin m dbs =
     dbs\<lparr>coin_metadata_tbl := filter (\<lambda>(c, _). c \<noteq> coin) (coin_metadata_tbl dbs) @ [(coin, m)]\<rparr>"

definition save_collection_stats :: "stats_row \<Rightarrow> database \<Rightarrow> database" where
  "save_collection_stats s dbs = dbs\<lparr>collection_stats := collection_stats dbs @ [s]\<rparr>"

text \<open>\<^verbatim>\<open>get_last_daily_date\<close>: \<^verbatim>\<open>SELECT MAX(date) ... WHERE coin_id = ?\<close>.\<close>

definition get_last_daily_date :: "database \<Rightarrow> string \<Rightarrow> date option" where
  "get_last_daily_date dbs coin =
     (case map row_date (filter (\<lambda>r. row_coin r = coin) (daily_prices dbs)) of
        [] \<Rightarrow> None
      | d # ds \<Rightarrow> Some (fold max ds d))"

text \<open>What a row stores besides its id.\<close>

definition row_content :: "price_row \<Rightarrow> string \<times> date \<times> daily_values" where
  "row_content r = (row_coin r, row_date r, row_values r)"

section \<open>historical_collector.py: the collector\<close>

subsection \<open>Strings\<close>

text \<open>\<^verbatim>\<open>str.lower\<close> and \<^verbatim>\<open>str.upper\<close> on ASCII letters, and \<^verbatim>\<open>p in s\<close>.\<close>

definition lower_char :: "char \<Rightarrow> char" where
  "lower_char c =
     (case map_of (zip ''ABCDEFGHIJKLMNOPQRSTUVWXYZ'' ''abcdefghijklmnopqrstuvwxyz'') c of
        Some l \<Rightarrow> l
      | None \<Rightarrow> c)"

definition upper_char :: "char \<Rightarrow> char" where
  "upper_char c =
     (case map_of (zip ''abcdefghijklmnopqrstuvwxyz'' ''ABCDEFGHIJKLMNOPQRSTUVWXYZ'') c of
        Some u \<Rightarrow> u
      | None \<Rightarrow> c)"

definition lower :: "string \<Rightarrow> string" where
  "lower s = map lower_char s"

definition upper :: "string \<Rightarrow> string" where
  "upper s = map upper_char s"

fun starts_with :: "string \<Rightarrow> string \<Rightarrow> bool" where
  "starts_with [] s = True"
| "starts_with (p # ps) [] = False"
| "starts_with (p # ps) (c # cs) = (p = c \<and> starts_with ps cs)"

fun contains :: "string \<Rightarrow> string \<Rightarrow> bool" where
  "contains p [] = (p = [])"
| "contains p (c # cs) = (starts_with p (c # cs) \<or> contains p cs)"

subsection \<open>The provider\<close>

text \<open>
  A point of a series is a millisecond timestamp and a value. A response is a JSON
  object: the empty one, a market chart (whose \<^verbatim>\<open>prices\<close> key may be missing; the
  other two series are read with the default \<^verbatim>\<open>[]\<close>), or the description of a
  coin with the entries the collector reads. A call of the client returns a
  response or raises with a message.
\<close>

type_synonym point = "int \<times> real"

record market_chart =
  prices :: "point list option"
  market_caps :: "point list"
  total_volumes :: "point list"

record coin_info =
  ci_name :: "string option"
  ci_symbol :: "string option"
  ci_max_supply :: "real option"
  ci_circulating_supply :: "real option"
  ci_description_en :: "string option"
  ci_homepage :: "string option"

datatype api_response = EmptyDict | Chart market_chart | Info coin_info

datatype api_outcome = Ok api_response | Fails string

datatype api_request = MarketChartReq string int | CoinInfoReq string

text \<open>
  The provider is scripted: the outcome of the n-th request of a collector (n is
  \<^verbatim>\<open>total_requests\<close> after its increment) for the request made.
\<close>

type_synonym provider = "nat \<Rightarrow> api_request \<Rightarrow> api_outcome"

subsection \<open>The collector's state\<close>

record api_counters =
  total_requests :: nat
  successful_requests :: nat
  failed_requests :: nat
  rate_limit_hits :: nat

text \<open>
  \<^verbatim>\<open>self.progress\<close>, the progress file that \<^verbatim>\<open>_save_progress\<close> rewrites,
  \<^verbatim>\<open>self.api_stats\<close> and the database, together with the clock that
  \<^verbatim>\<open>datetime.now()\<close> reads and \<^verbatim>\<open>time.sleep\<close> advances, the sleeps made and the
  requests issued (both in order).
\<close>

record collector =
  progress :: "string \<rightharpoonup> CollectionProgress"
  progress_file :: "(string \<rightharpoonup> CollectionProgress) option"
  api_stats :: api_counters
  dbase :: database
  clock :: datetime
  sleep_log :: "int list"
  request_log :: "api_request list"

definition sleep :: "int \<Rightarrow> collector \<Rightarrow> collector" where
  "sleep us st = st\<lparr>clock := clock st + us, sleep_log := sleep_log st @ [us]\<rparr>"

definition save_progress :: "collector \<Rightarrow> collector" where
  "save_progress st = st\<lparr>progress_file := Some (progress st)\<rparr>"

text \<open>
  An assignment through the local \<^verbatim>\<open>progress\<close>, which is the object stored in
  \<^verbatim>\<open>self.progress[coin]\<close>.
\<close>

definition upd_progress ::
  "string \<Rightarrow> (CollectionProgress \<Rightarrow> CollectionProgress) \<Rightarrow> collector \<Rightarrow> collector" where
  "upd_progress coin f st =
     (case progress st coin of
        None \<Rightarrow> st
      | Some p \<Rightarrow> st\<lparr>progress := (progress st)(coin \<mapsto> f p)\<rparr>)"

text \<open>\<^verbatim>\<open>self.start_dates\<close>, as days since 1970-01-01 at midnight.\<close>

definition start_dates :: "string \<rightharpoonup> datetime" where
  "start_dates = map_of
     [(''bitcoin'', 17167 * us_per_day), (''ethereum'', 17167 * us_per_day),
      (''binancecoin'', 17348 * us_per_day), (''solana'', 18322 * us_per_day),
      (''cardano'', 17440 * us_per_day), (''avalanche-2'', 18506 * us_per_day),
      (''ripple'', 17167 * us_per_day), (''polkadot'', 18383 * us_per_day),
      (''chainlink'', 18017 * us_per_day), (''polygon'', 17987 * us_per_day)]"

definition initialize_collection ::
  "string \<Rightarrow> collector \<Rightarrow> (py_error + CollectionProgress) \<times> collector" where
  "initialize_collection coin st =
     (case start_dates coin of
        None \<Rightarrow> (Inl ValueError, st)
      | Some sd \<Rightarrow>
          let ed = clock st;
              p = \<lparr>coin_id = coin, total_days = days_between ed sd, collected_days = 0,
                   start_date = sd, end_date = ed, current_date = sd, status = ''pending'',
                   errors = [], last_error = None, collection_start = None,
                   collection_end = None\<rparr>
          in (Inr p, save_progress (st\<lparr>progress := (progress st)(coin \<mapsto> p)\<rparr>)))"

text \<open>
  \<^verbatim>\<open>start_bitcoin_collection\<close> and \<^verbatim>\<open>start_ethereum_collection\<close>, which differ in
  the coin only.
\<close>

definition start_collection ::
  "string \<Rightarrow> collector \<Rightarrow> (py_error + CollectionProgress) \<times> collector" where
  "start_collection coin st =
     (case initialize_collection coin st of
        (Inl e, st1) \<Rightarrow> (Inl e, st1)
      | (Inr p, st1) \<Rightarrow>
          let st2 = upd_progress coin
                      (\<lambda>p. p\<lparr>status := ''in_progress'', collection_start := Some (clock st1)\<rparr>) st1
          in (Inr (p\<lparr>status := ''in_progress'', collection_start := Some (clock st1)\<rparr>),
              save_progress st2))"

text \<open>
  \<^verbatim>\<open>_make_api_request\<close>: 100 ms of sleep before the call; a failure whose message
  contains "rate limit" (in any case) counts a rate-limit hit and sleeps 60 s. The
  failure is reported as None; nothing is re-issued here.
\<close>

definition make_api_request ::
  "provider \<Rightarrow> api_request \<Rightarrow> collector \<Rightarrow> api_response option \<times> collector" where
  "make_api_request env req st =
     (let n = total_requests (api_stats st) + 1;
          st1 = st\<lparr>api_stats := (api_stats st)\<lparr>total_requests := n\<rparr>\<rparr>;
          st2 = (sleep 100000 st1)\<lparr>request_log := request_log st1 @ [req]\<rparr>
      in (case env n req of
            Ok response \<Rightarrow>
              (Some response,
               st2\<lparr>api_stats := (api_stats st2)
                      \<lparr>successful_requests := successful_requests (api_stats st2) + 1\<rparr>\<rparr>)
          | Fails error_msg \<Rightarrow>
              let st3 = st2\<lparr>api_stats := (api_stats st2)
                             \<lparr>failed_requests := failed_requests (api_stats st2) + 1\<rparr>\<rparr>
              in if contains ''rate limit'' (lower error_msg)
                 then (None,
                       sleep 60000000
                         (st3\<lparr>api_stats := (api_stats st3)
                                \<lparr>rate_limit_hits := rate_limit_hits (api_stats st3) + 1\<rparr>\<rparr>))
                 else (None, st3)))"

subsection \<open>Processing a market chart\<close>

text \<open>
  The loop of \<^verbatim>\<open>_process_market_chart_data\<close> over the prices, with the index and
  the records built so far. The local date of a timestamp is taken in UTC. A point
  before the start date is skipped; the changes are computed against the record
  appended last.
\<close>

definition ms_per_day :: int where
  "ms_per_day = 86400000"

definition nth_value :: "point list \<Rightarrow> nat \<Rightarrow> real option" where
  "nth_value xs i = (if i < length xs then Some (snd (xs ! i)) else None)"

definition change_24h :: "bool \<Rightarrow> real option \<Rightarrow> real \<Rightarrow> real option" where
  "change_24h has_prev prev cur =
     (if has_prev
      then (case prev of
              None \<Rightarrow> None
            | Some pv \<Rightarrow> if pv \<noteq> 0 \<and> pv > 0 then Some ((cur - pv) / pv * 100) else None)
      else None)"

fun process_points ::
  "date \<Rightarrow> point list \<Rightarrow> point list \<Rightarrow> point list \<Rightarrow> nat \<Rightarrow> daily_record list
   \<Rightarrow> daily_record list" where
  "process_points sd [] mcs vols i daily_data = daily_data"
| "process_points sd ((ts, price) # ps) mcs vols i daily_data =
     (let record_date = ts div ms_per_day
      in if record_date < sd then process_points sd ps mcs vols (i + 1) daily_data
         else
           let market_cap = nth_value mcs i;
               volume = nth_value vols i;
               has_prev = (i > 0 \<and> daily_data \<noteq> []);
               price_change = change_24h has_prev (v_close (d_values (last daily_data))) price;
               volume_change =
                 (case volume of
                    None \<Rightarrow> None
                  | Some v \<Rightarrow>
                      if v \<noteq> 0
                      then change_24h has_prev (v_volume (d_values (last daily_data))) v
                      else None);
               rec = \<lparr>d_date = Some record_date,
                      d_values = \<lparr>v_open = Some price, v_high = Some price, v_low = Some price,
                        v_close = Some price, v_volume = volume, v_market_cap = market_cap,
                        v_circulating_supply = None, v_total_supply = None, v_fdv = None,
                        v_price_change_24h = price_change,
                        v_volume_change_24h = volume_change\<rparr>\<rparr>
           in process_points sd ps mcs vols (i + 1) (daily_data @ [rec]))"

definition process_market_chart_data :: "market_chart \<Rightarrow> datetime \<Rightarrow> daily_record list" where
  "process_market_chart_data response sd =
     process_points (date_of sd) (case prices response of None \<Rightarrow> [] | Some ps \<Rightarrow> ps)
       (market_caps response) (total_volumes response) 0 []"

subsection \<open>Collecting a coin\<close>

text \<open>
  The branches of the loop body of \<^verbatim>\<open>collect_bitcoin_data\<close> (and of
  \<^verbatim>\<open>collect_ethereum_data\<close>, the same text for the other coin). A page with
  records is saved: \<^verbatim>\<open>total_collected\<close> grows by the count the database returns,
  \<^verbatim>\<open>collected_days\<close> by the number of records, and the progress is written. A page
  without records, and a request without a usable response, add to \<^verbatim>\<open>errors\<close>.
\<close>

definition page_saved :: "string \<Rightarrow> daily_record list \<Rightarrow> int \<times> collector \<Rightarrow> int \<times> collector" where
  "page_saved coin daily_data = (\<lambda>(total_collected, st).
     let (saved_count, dbs) = save_daily_data coin daily_data (dbase st);
         st1 = st\<lparr>dbase := dbs\<rparr>;
         st2 = upd_progress coin
                 (\<lambda>p. p\<lparr>collected_days := collected_days p + int (length daily_data)\<rparr>) st1
     in (total_collected + saved_count, save_progress st2))"

definition page_empty :: "string \<Rightarrow> int \<Rightarrow> collector \<Rightarrow> collector" where
  "page_empty coin current_request st =
     upd_progress coin (\<lambda>p. p\<lparr>errors := errors p @ [NoDataForRequest current_request]\<rparr>) st"

definition page_failed :: "string \<Rightarrow> int \<Rightarrow> collector \<Rightarrow> collector" where
  "page_failed coin current_request st =
     upd_progress coin
       (\<lambda>p. p\<lparr>errors := errors p @ [FetchErrorForRequest current_request],
              last_error := Some (FetchErrorForRequest current_request)\<rparr>) st"

text \<open>\<^verbatim>\<open>response and 'prices' in response\<close>: the chart, when it has prices.\<close>

definition usable_chart :: "api_response option \<Rightarrow> market_chart option" where
  "usable_chart response =
     (case response of
        Some (Chart ch) \<Rightarrow> (case prices ch of None \<Rightarrow> None | Some _ \<Rightarrow> Some ch)
      | _ \<Rightarrow> None)"

text \<open>
  One pass of the loop body for request number \<^verbatim>\<open>current_request\<close>, ending with the
  2 s pause.
\<close>

definition collect_page ::
  "provider \<Rightarrow> string \<Rightarrow> datetime \<Rightarrow> int \<Rightarrow> int \<Rightarrow> int \<times> collector \<Rightarrow> int \<times> collector" where
  "collect_page env coin sd total_days_needed current_request = (\<lambda>(total_collected, st).
     let days_for_this_request = min 365 (total_days_needed - total_collected);
         (response, st1) = make_api_request env (MarketChartReq coin days_for_this_request) st;
         (total_collected1, st2) =
           (case usable_chart response of
              Some ch \<Rightarrow>
                let daily_data = process_market_chart_data ch sd
                in if daily_data \<noteq> [] then page_saved coin daily_data (total_collected, st1)
                   else (total_collected, page_empty coin current_request st1)
            | None \<Rightarrow> (total_collected, page_failed coin current_request st1))
     in (total_collected1, sleep 2000000 st2))"

function collect_loop ::
  "provider \<Rightarrow> string \<Rightarrow> datetime \<Rightarrow> int \<Rightarrow> int \<Rightarrow> int \<Rightarrow> int \<times> collector \<Rightarrow> int \<times> collector" where
  "collect_loop env coin sd total_days_needed requests_needed current_request acc =
     (if current_request < requests_needed
      then collect_loop env coin sd total_days_needed requests_needed (current_request + 1)
             (collect_page env coin sd total_days_needed (current_request + 1) acc)
      else acc)"
  by pat_completeness auto
termination
  by (relation "measure (\<lambda>(env, coin, sd, tdn, rn, cr, acc). nat (rn - cr))") auto

text \<open>
  The values that differ between the two entry points: the defaults for name and
  symbol and the fixed metadata (the consensus text of Ethereum without its one
  Cyrillic letter).
\<close>

record coin_consts =
  default_name :: string
  default_symbol :: string
  launch_date :: string
  algorithm :: string
  consensus :: string

definition bitcoin_consts :: coin_consts where
  "bitcoin_consts = \<lparr>default_name = ''Bitcoin'', default_symbol = ''BTC'',
     launch_date = ''2009-01-03'', algorithm = ''SHA-256'', consensus = ''Proof of Work''\<rparr>"

definition ethereum_consts :: coin_consts where
  "ethereum_consts = \<lparr>default_name = ''Ethereum'', default_symbol = ''ETH'',
     launch_date = ''2015-07-30'', algorithm = ''Ethash (PoW) -> PoS'',
     consensus = ''Proof of Stake (2022)''\<rparr>"

definition empty_info :: coin_info where
  "empty_info = \<lparr>ci_name = None, ci_symbol = None, ci_max_supply = None,
     ci_circulating_supply = None, ci_description_en = None, ci_homepage = None\<rparr>"

definition metadata_of :: "coin_consts \<Rightarrow> api_response \<Rightarrow> coin_metadata" where
  "metadata_of consts response =
     (let ci = (case response of Info i \<Rightarrow> i | _ \<Rightarrow> empty_info)
      in \<lparr>m_name = Some (case ci_name ci of None \<Rightarrow> default_name consts | Some n \<Rightarrow> n),
          m_symbol = Some (upper (case ci_symbol ci of None \<Rightarrow> default_symbol consts | Some s \<Rightarrow> s)),
          m_launch_date = launch_date consts,
          m_max_supply = ci_max_supply ci,
          m_current_supply = ci_circulating_supply ci,
          m_algorithm = algorithm consts,
          m_consensus = consensus consts,
          m_description = Some (take 500 (case ci_description_en ci of None \<Rightarrow> [] | Some d \<Rightarrow> d)),
          m_website = ci_homepage ci\<rparr>)"

text \<open>
  The completion check after the loop. Python compares the int \<^verbatim>\<open>collected_days\<close>
  with the float \<^verbatim>\<open>total_days * 0.95\<close>; the product is taken over the reals here.
  In the completed branch the status is written before the collection time is
  computed, and \<^verbatim>\<open>collection_end - collection_start\<close> raises \<^verbatim>\<open>TypeError\<close> when
  \<^verbatim>\<open>collection_start\<close> is None.
\<close>

definition finish_collection ::
  "string \<Rightarrow> int \<Rightarrow> collector \<Rightarrow> (py_error + bool) \<times> collector" where
  "finish_collection coin total_collected st =
     (case progress st coin of
        None \<Rightarrow> (Inl KeyError, st)
      | Some p \<Rightarrow>
          if real_of_int (collected_days p) \<ge> real_of_int (total_days p) * (95 / 100)
          then
            let now = clock st;
                st1 = save_progress
                        (upd_progress coin
                           (\<lambda>p. p\<lparr>status := ''completed'', collection_end := Some now\<rparr>) st)
            in (case collection_start p of
                  None \<Rightarrow> (Inl TypeError, st1)
                | Some cs \<Rightarrow>
                    (Inr True,
                     st1\<lparr>dbase := save_collection_stats
                            \<lparr>s_coin = coin, s_collection_date = date_of now,
                             s_records_added = total_collected, s_records_updated = 0,
                             s_errors_count = int (length (errors p)),
                             s_collection_time_seconds = real_of_int (now - cs) / 1000000,
                             s_status = ''completed''\<rparr>
                            (dbase st1)\<rparr>))
          else
            (Inr False,
             save_progress
               (upd_progress coin
                  (\<lambda>p. p\<lparr>status := ''error'',
                         last_error := Some (CollectedOnly (collected_days p) (total_days p))\<rparr>)
                  st)))"

text \<open>The metadata request at the start: stored when the response is truthy.\<close>

definition store_metadata ::
  "coin_consts \<Rightarrow> string \<Rightarrow> api_response option \<Rightarrow> collector \<Rightarrow> collector" where
  "store_metadata consts coin coin_info st =
     (case coin_info of
        None \<Rightarrow> st
      | Some r \<Rightarrow>
          if r = EmptyDict then st
          else st\<lparr>dbase := save_coin_metadata coin (metadata_of consts r) (dbase st)\<rparr>)"

text \<open>
  \<^verbatim>\<open>collect_bitcoin_data\<close> and \<^verbatim>\<open>collect_ethereum_data\<close>: the returned bool, or the
  exception that leaves the function, and the state afterwards.
\<close>

definition collect_started ::
  "coin_consts \<Rightarrow> provider \<Rightarrow> string \<Rightarrow> collector \<Rightarrow> (py_error + bool) \<times> collector" where
  "collect_started consts env coin st =
     (case progress st coin of
        None \<Rightarrow> (Inl KeyError, st)
      | Some p \<Rightarrow>
          if status p = ''completed'' then (Inr True, st)
          else
            let (coin_info, st1) = make_api_request env (CoinInfoReq coin) st;
                st2 = store_metadata consts coin coin_info st1;
                days_to_collect = days_between (end_date p) (start_date p);
                total_days_needed = days_to_collect;
                requests_needed = (total_days_needed + 365 - 1) div 365;
                (total_collected, st3) =
                  collect_loop env coin (start_date p) total_days_needed requests_needed 0 (0, st2)
            in finish_collection coin total_collected st3)"

definition collect_coin_data ::
  "coin_consts \<Rightarrow> provider \<Rightarrow> string \<Rightarrow> collector \<Rightarrow> (py_error + bool) \<times> collector" where
  "collect_coin_data consts env coin st =
     (if progress st coin = None
      then (case start_collection coin st of
              (Inl e, st0) \<Rightarrow> (Inl e, st0)
            | (Inr _, st0) \<Rightarrow> collect_started consts env coin st0)
      else collect_started consts env coin st)"

definition collect_bitcoin_data :: "provider \<Rightarrow> collector \<Rightarrow> (py_error + bool) \<times> collector" where
  "collect_bitcoin_data env st = collect_coin_data bitcoin_consts env ''bitcoin'' st"

definition collect_ethereum_data :: "provider \<Rightarrow> collector \<Rightarrow> (py_error + bool) \<times> collector" where
  "collect_ethereum_data env st = collect_coin_data ethereum_consts env ''ethereum'' st"

text \<open>
  \<^verbatim>\<open>HistoricalCollector.__init__\<close> when there is no progress file yet, over an empty
  database.
\<close>

definition empty_db :: database where
  "empty_db = \<lparr>daily_prices = [], daily_seq = 0, coin_metadata_tbl = [], collection_stats = []\<rparr>"

definition new_collector :: "datetime \<Rightarrow> collector" where
  "new_collector now =
     \<lparr>progress = Map.empty, progress_file = None,
      api_stats = \<lparr>total_requests = 0, successful_requests = 0, failed_requests = 0,
                   rate_limit_hits = 0\<rparr>,
      dbase = empty_db, clock = now, sleep_log = [], request_log = []\<rparr>"

section \<open>crypto_historical_analyzer.py: the incremental update\<close>

text \<open>
  The analyzer holds a database manager and a CoinGecko client, each of which may be
  None. The first part of \<^verbatim>\<open>get_ethereum_analysis\<close> brings the stored series up
  to date; the provider answers a request for a number of days.
\<close>

record analyzer =
  db_manager :: "database option"
  cg_present :: bool

text \<open>\<^verbatim>\<open>need_update\<close> and \<^verbatim>\<open>days_to_fetch\<close> from the last stored date and today.\<close>

definition update_plan :: "date option \<Rightarrow> date \<Rightarrow> bool \<times> int" where
  "update_plan last_date today =
     (case last_date of
        None \<Rightarrow> (True, 365)
      | Some ld \<Rightarrow>
          let gap_days = today - ld
          in if gap_days \<ge> 1 then (True, min 90 (gap_days + 1)) else (False, 0))"

definition change_from :: "real option \<Rightarrow> real \<Rightarrow> real option" where
  "change_from prev cur =
     (case prev of
        None \<Rightarrow> None
      | Some pv \<Rightarrow> if pv = 0 then None else Some ((cur - pv) / pv * 100))"

fun eth_records ::
  "point list \<Rightarrow> point list \<Rightarrow> point list \<Rightarrow> nat \<Rightarrow> real option \<Rightarrow> real option
   \<Rightarrow> daily_record list \<Rightarrow> daily_record list" where
  "eth_records [] mcs vols i prev_close prev_volume records = records"
| "eth_records ((ts_ms, price) # ps) mcs vols i prev_close prev_volume records =
     (let market_cap = nth_value mcs i;
          volume = nth_value vols i;
          price_change = change_from prev_close price;
          volume_change =
            (case volume of
               None \<Rightarrow> None
             | Some v \<Rightarrow> if v = 0 then None else change_from prev_volume v);
          rec = \<lparr>d_date = Some (ts_ms div ms_per_day),
                 d_values = \<lparr>v_open = Some price, v_high = Some price, v_low = Some price,
                   v_close = Some price, v_volume = volume, v_market_cap = market_cap,
                   v_circulating_supply = None, v_total_supply = None, v_fdv = None,
                   v_price_change_24h = price_change, v_volume_change_24h = volume_change\<rparr>\<rparr>
      in eth_records ps mcs vols (i + 1) (Some price) volume (records @ [rec]))"

definition history_records :: "api_response \<Rightarrow> daily_record list" where
  "history_records history =
     (case history of
        Chart ch \<Rightarrow>
          eth_records (case prices ch of None \<Rightarrow> [] | Some ps \<Rightarrow> ps) (market_caps ch)
            (total_volumes ch) 0 None None []
      | _ \<Rightarrow> [])"

text \<open>
  The result is the list of the \<^verbatim>\<open>days\<close> arguments of the requests issued and
  the analyzer afterwards. A failing request is caught and logged.
\<close>

definition ethereum_incremental_update ::
  "(int \<Rightarrow> api_outcome) \<Rightarrow> date \<Rightarrow> analyzer \<Rightarrow> int list \<times> analyzer" where
  "ethereum_incremental_update cg today a =
     (case db_manager a of
        None \<Rightarrow> ([], a)
      | Some dbs \<Rightarrow>
          let (need_update, days_to_fetch) = update_plan (get_last_daily_date dbs ''ethereum'') today
          in if need_update \<and> cg_present a
             then (case cg days_to_fetch of
                     Fails _ \<Rightarrow> ([days_to_fetch], a)
                   | Ok history \<Rightarrow>
                       let records = history_records history
                       in if records \<noteq> []
                          then ([days_to_fetch],
                                a\<lparr>db_manager :=
                                    Some (snd (save_daily_data ''ethereum'' records dbs))\<rparr>)
                          else ([days_to_fetch], a))
             else ([], a))"

section \<open>The RSI of crypto_history_collector.py and historical_data_manager.py\<close>

text \<open>
  A float is a finite value, an infinity or NaN; finite values are reals, and the
  operations follow IEEE 754 where a zero divisor or an infinity is involved.
  Rounding is not modelled.
\<close>

datatype fl = Fin real | PInf | NInf | NaN

fun fl_add :: "fl \<Rightarrow> fl \<Rightarrow> fl" where
  "fl_add (Fin a) (Fin b) = Fin (a + b)"
| "fl_add NaN _ = NaN"
| "fl_add _ NaN = NaN"
| "fl_add PInf NInf = NaN"
| "fl_add NInf PInf = NaN"
| "fl_add PInf _ = PInf"
| "fl_add _ PInf = PInf"
| "fl_add NInf _ = NInf"
| "fl_add _ NInf = NInf"

fun fl_neg :: "fl \<Rightarrow> fl" where
  "fl_neg (Fin a) = Fin (- a)"
| "fl_neg PInf = NInf"
| "fl_neg NInf = PInf"
| "fl_neg NaN = NaN"

definition fl_sub :: "fl \<Rightarrow> fl \<Rightarrow> fl" where
  "fl_sub x y = fl_add x (fl_neg y)"

fun fl_div :: "fl \<Rightarrow> fl \<Rightarrow> fl" where
  "fl_div (Fin a) (Fin b) =
     (if b = 0 then (if a = 0 then NaN else if a > 0 then PInf else NInf) else Fin (a / b))"
| "fl_div NaN _ = NaN"
| "fl_div _ NaN = NaN"
| "fl_div (Fin a) _ = Fin 0"
| "fl_div PInf (Fin b) = (if b \<ge> 0 then PInf else NInf)"
| "fl_div NInf (Fin b) = (if b \<ge> 0 then NInf else PInf)"
| "fl_div _ _ = NaN"

text \<open>
  A price series has a value or NaN (None) at each position. \<^verbatim>\<open>diff\<close> is NaN at
  the first position and wherever a neighbour is NaN.
\<close>

definition delta_of :: "real option \<Rightarrow> real option \<Rightarrow> real option" where
  "delta_of prev cur =
     (case prev of
        None \<Rightarrow> None
      | Some u \<Rightarrow> (case cur of None \<Rightarrow> None | Some v \<Rightarrow> Some (v - u)))"

fun diff :: "real option list \<Rightarrow> real option list" where
  "diff [] = []"
| "diff (x # xs) = None # map2 delta_of (x # xs) xs"

text \<open>
  \<^verbatim>\<open>delta.where(delta > 0, 0)\<close> and \<^verbatim>\<open>-delta.where(delta < 0, 0)\<close>: a NaN fails the
  comparison and is replaced by 0.
\<close>

definition gain_of :: "real option \<Rightarrow> real" where
  "gain_of d = (case d of None \<Rightarrow> 0 | Some x \<Rightarrow> if x > 0 then x else 0)"

definition loss_of :: "real option \<Rightarrow> real" where
  "loss_of d = - (case d of None \<Rightarrow> 0 | Some x \<Rightarrow> if x < 0 then x else 0)"

text \<open>
  \<^verbatim>\<open>rolling(window=period).mean()\<close> of a series without NaN: NaN until the window
  is full, then the mean of the last \<^verbatim>\<open>period\<close> values.
\<close>

definition window_mean :: "nat \<Rightarrow> real list \<Rightarrow> nat \<Rightarrow> fl" where
  "window_mean period xs i =
     (if i + 1 < period then NaN
      else Fin (sum_list (take period (drop (i + 1 - period) xs)) / real period))"

definition rolling_mean :: "nat \<Rightarrow> real list \<Rightarrow> fl list" where
  "rolling_mean period xs = map (window_mean period xs) [0..<length xs]"

definition rsi_of :: "fl \<Rightarrow> fl \<Rightarrow> fl" where
  "rsi_of gain loss =
     (let rs = fl_div gain loss
      in fl_sub (Fin 100) (fl_div (Fin 100) (fl_add (Fin 1) rs)))"

definition calculate_rsi :: "real option list \<Rightarrow> nat \<Rightarrow> fl list" where
  "calculate_rsi price_series period =
     (let delta = diff price_series;
          gain = rolling_mean period (map gain_of delta);
          loss = rolling_mean period (map loss_of delta)
      in map2 rsi_of gain loss)"

text \<open>
  The RSI column of \<^verbatim>\<open>calculate_technical_indicators\<close>: absent when the frame has
  fewer rows than the period.
\<close>

definition technical_rsi :: "real option list \<Rightarrow> nat \<Rightarrow> fl list option" where
  "technical_rsi closes period =
     (if length closes < period then None else Some (calculate_rsi closes period))"

text \<open>The average gain and loss that enter the RSI at a position.\<close>

definition avg_gain :: "real option list \<Rightarrow> nat \<Rightarrow> nat \<Rightarrow> fl" where
  "avg_gain price_series period i = rolling_mean period (map gain_of (diff price_series)) ! i"

definition avg_loss :: "real option list \<Rightarrow> nat \<Rightarrow> nat \<Rightarrow> fl" where
  "avg_loss price_series period i = rolling_mean period (map loss_of (diff price_series)) ! i"

text \<open>A value of a series lies in the closed interval from 0 to 100.\<close>

definition in_0_100 :: "fl \<Rightarrow> bool" where
  "in_0_100 x = (case x of Fin v \<Rightarrow> 0 \<le> v \<and> v \<le> 100 | _ \<Rightarrow> False)"

section \<open>Sample inputs\<close>

definition vals0 :: daily_values where
  "vals0 = \<lparr>v_open = Some 1, v_high = Some 1, v_low = Some 1, v_close = Some 1, v_volume = None,
     v_market_cap = None, v_circulating_supply = None, v_total_supply = None, v_fdv = None,
     v_price_change_24h = None, v_volume_change_24h = None\<rparr>"

text \<open>Fifteen closes that never move, and fifteen that rise by 1 a day.\<close>

definition flat_prices :: "real option list" where
  "flat_prices = [Some 100, Some 100, Some 100, Some 100, Some 100, Some 100, Some 100, Some 100,
     Some 100, Some 100, Some 100, Some 100, Some 100, Some 100, Some 100]"

definition rising_prices :: "real option list" where
  "rising_prices = [Some 100, Some 101, Some 102, Some 103, Some 104, Some 105, Some 106, Some 107,
     Some 108, Some 109, Some 110, Some 111, Some 112, Some 113, Some 114]"

text \<open>
  A chart of two points on 2017-01-01, an hour apart; a provider that answers the
  first request with a coin description and every other with that chart; one that
  answers every request with the chart; and one whose third answer (the second
  page of a job) is a rate-limit failure.
\<close>

definition two_points :: market_chart where
  "two_points = \<lparr>prices = Some [(17167 * ms_per_day, 1000), (17167 * ms_per_day + 3600000, 1010)],
     market_caps = [], total_volumes = []\<rparr>"

definition demo_env :: provider where
  "demo_env n req = (if n = 1 then Ok (Info empty_info) else Ok (Chart two_points))"

definition chart_env :: provider where
  "chart_env n req = Ok (Chart two_points)"

definition rate_limit_msg :: string where
  "rate_limit_msg = ''429 Too Many Requests: Rate Limit exceeded''"

definition limited_env :: provider where
  "limited_env n req =
     (if n = 1 then Ok (Info empty_info)
      else if n = 3 then Fails rate_limit_msg
      else Ok (Chart two_points))"

text \<open>
  A Bitcoin job over 731 days (three pages) that was interrupted with 700 days
  collected, and the collector that loaded it.
\<close>

definition resumed_progress :: CollectionProgress where
  "resumed_progress =
     \<lparr>coin_id = ''bitcoin'', total_days = 731, collected_days = 700,
      start_date = 17167 * us_per_day, end_date = 17898 * us_per_day,
      current_date = 17167 * us_per_day, status = ''in_progress'', errors = [],
      last_error = None, collection_start = Some (17898 * us_per_day), collection_end = None\<rparr>"

definition resumed_state :: collector where
  "resumed_state =
     (new_collector (17898 * us_per_day))
       \<lparr>progress := [''bitcoin'' \<mapsto> resumed_progress],
        progress_file := Some [''bitcoin'' \<mapsto> resumed_progress]\<rparr>"

text \<open>The same job freshly started by \<^verbatim>\<open>start_bitcoin_collection\<close>.\<close>

definition started_state :: collector where
  "started_state = snd (start_collection ''bitcoin'' (new_collector (17898 * us_per_day)))"

definition started_progress :: CollectionProgress where
  "started_progress =
     \<lparr>coin_id = ''bitcoin'', total_days = 731, collected_days = 0,
      start_date = 17167 * us_per_day, end_date = 17898 * us_per_day,
      current_date = 17167 * us_per_day, status = ''in_progress'', errors = [],
      last_error = None, collection_start = Some (17898 * us_per_day), collection_end = None\<rparr>"

text \<open>
  A collector on 2017-01-02 (a job of one day, one page): after
  \<^verbatim>\<open>initialize_collection('bitcoin')\<close> only, after
  \<^verbatim>\<open>start_bitcoin_collection()\<close>, and after a whole run of
  \<^verbatim>\<open>collect_bitcoin_data()\<close> on a new collector.
\<close>

definition pending_state :: collector where
  "pending_state = snd (initialize_collection ''bitcoin'' (new_collector (17168 * us_per_day)))"

definition one_day_state :: collector where
  "one_day_state = snd (start_collection ''bitcoin'' (new_collector (17168 * us_per_day)))"

definition one_day_progress :: CollectionProgress where
  "one_day_progress =
     \<lparr>coin_id = ''bitcoin'', total_days = 1, collected_days = 0,
      start_date = 17167 * us_per_day, end_date = 17168 * us_per_day,
      current_date = 17167 * us_per_day, status = ''in_progress'', errors = [],
      last_error = None, collection_start = Some (17168 * us_per_day), collection_end = None\<rparr>"

definition fresh_run :: collector where
  "fresh_run = snd (collect_bitcoin_data demo_env (new_collector (17168 * us_per_day)))"

text \<open>What is read off a job: status, days collected, total days, start, and whether an end is set.\<close>

definition job_summary :: "CollectionProgress \<Rightarrow> string \<times> int \<times> int \<times> datetime option \<times> bool" where
  "job_summary p =
     (status p, collected_days p, total_days p, collection_start p, collection_end p \<noteq> None)"

text \<open>A completed job, and a database with one Ethereum row.\<close>

definition done_progress :: CollectionProgress where
  "done_progress = resumed_progress\<lparr>status := ''completed'', collected_days := 731\<rparr>"

definition done_state :: collector where
  "done_state = (new_collector (17898 * us_per_day))\<lparr>progress := [''bitcoin'' \<mapsto> done_progress]\<rparr>"

definition eth_db :: database where
  "eth_db = snd (save_daily_data ''ethereum'' [\<lparr>d_date = Some 100, d_values = vals0\<rparr>] empty_db)"

text \<open>
  A database with a Bitcoin row of day 200 and Ethereum rows of the days 100 and 97,
  written in that order; an analyzer over it; and a provider that answers a request
  for 4 days with one point for each of the days 100 to 103 and fails on any other.
\<close>

definition mixed_db :: database where
  "mixed_db =
     snd (save_daily_data ''ethereum''
            [\<lparr>d_date = Some 100, d_values = vals0\<rparr>, \<lparr>d_date = Some 97, d_values = vals0\<rparr>]
            (snd (save_daily_data ''bitcoin'' [\<lparr>d_date = Some 200, d_values = vals0\<rparr>] empty_db)))"

definition mixed_analyzer :: analyzer where
  "mixed_analyzer = \<lparr>db_manager = Some mixed_db, cg_present = True\<rparr>"

definition four_days :: market_chart where
  "four_days = \<lparr>prices = Some [(100 * ms_per_day, 2000), (101 * ms_per_day, 2010),
                                (102 * ms_per_day, 2020), (103 * ms_per_day, 2030)],
                market_caps = [], total_volumes = []\<rparr>"

definition daily_provider :: "int \<Rightarrow> api_outcome" where
  "daily_provider days = (if days = 4 then Ok (Chart four_days) else Fails ''unexpected days'')"

text \<open>
  The sources of the two collectors when they answer and when all of them are
  down, the payloads collected from them, and the cache files written from the good
  payloads in the morning of day 100.
\<close>

definition good_market :: market_sources where
  "good_market =
     \<lparr>yahoo_finance = [(''S&P 500'', JObj [(''current_price'', JNum 5000)])],
      fed_rates = Some [(''current_rate'', JNum 5)],
      fear_greed_index = Some [(''value'', JNum 50)]\<rparr>"

definition market_down :: market_sources where
  "market_down = \<lparr>yahoo_finance = [], fed_rates = Some [], fear_greed_index = Some []\<rparr>"

definition good_market_payload :: payload where
  "good_market_payload = collect_all_metrics good_market (at_time 100 9 5)"

definition market_cache :: cache_file where
  "market_cache = save_cache good_market_payload (at_time 100 9 5)"

definition hollow_market_payload :: "datetime \<Rightarrow> payload" where
  "hollow_market_payload now =
     [(''collection_timestamp'', JTime now),
      (''yahoo_finance'', JObj []),
      (''fed_rates'', JObj []),
      (''fear_greed_index'', JObj []),
      (''data_quality'',
       JObj [(''sources_available'', JNum 0), (''total_sources'', JNum 3),
             (''collection_success_rate'', JStr ''0.0%'')])]"

definition good_crypto :: crypto_sources where
  "good_crypto =
     \<lparr>top_cryptocurrencies = [(''BTC'', [(''price_usd'', JNum 60000)])],
      derivatives_data = (\<lambda>symbols. [(''BTC'', JObj [(''funding_rate'', JNum 1)])]),
      market_fear_greed = [(''value'', JNum 50)]\<rparr>"

definition crypto_down :: crypto_sources where
  "crypto_down =
     \<lparr>top_cryptocurrencies = [], derivatives_data = (\<lambda>symbols. []), market_fear_greed = []\<rparr>"

definition good_crypto_payload :: payload where
  "good_crypto_payload = collect_all_crypto_data good_crypto (at_time 100 8 5)"

definition crypto_cache :: cache_file where
  "crypto_cache = save_crypto_cache good_crypto_payload Missing (at_time 100 8 5)"

definition hollow_crypto_payload :: "datetime \<Rightarrow> payload" where
  "hollow_crypto_payload now =
     [(''top_cryptocurrencies'', JList []),
      (''derivatives_data'', JObj []),
      (''fear_greed_index'', JObj []),
      (''last_updated'', JTime now),
      (''data_sources'',
       JObj [(''coingecko'', JBool False), (''binance_derivatives'', JBool False),
             (''fear_greed'', JBool False)])]"


section \<open>Properties\<close>

subsection \<open>The schedule-aware cache\<close>

lemma find_lt_all:
  "list_all (\<lambda>h. c < h) hs \<Longrightarrow> hs \<noteq> [] \<Longrightarrow> find (\<lambda>h. c < (h::int)) hs = Some (hd hs)"
  by (cases hs) simp_all

lemma find_ge_none:
  "list_all (\<lambda>h. c < h) hs \<Longrightarrow> find (\<lambda>h. c \<ge> (h::int)) (rev hs) = None"
  by (induction hs) (auto simp: find_None_iff)

lemma date_of_yesterday: "date_of (now - timedelta_days 1) = date_of now - 1"
proof -
  have "(now - 1 * us_per_day) div us_per_day = now div us_per_day - 1"
    by (simp add: us_per_day_def)
  then show ?thesis by (simp add: date_of_def timedelta_days_def)
qed

text \<open>
  While no scheduled hour has passed on the query day, the check answers False for
  every cache file: an entry of another day is refused by the date test at the top,
  and an entry of the query day is not of the day before.
\<close>

lemma is_cache_valid_before_first_hour:
  assumes "list_all (\<lambda>h. hour_of now < h) hs"
  shows "is_cache_valid hs file now = False"
proof (cases hs)
  case Nil
  then show ?thesis
    by (simp add: is_cache_valid_def split: cache_file.splits stamp.splits)
next
  case (Cons h hs')
  then have ne: "hs \<noteq> []" by simp
  show ?thesis
    using find_lt_all [OF assms ne] find_ge_none [OF assms]
    by (simp add: is_cache_valid_def date_of_yesterday split: cache_file.splits stamp.splits)
qed

text \<open>
  C1. Hours 9 and 21; the entry was written the day before at 22:00 (after the last
  slot), the query comes at 05:00, before any slot of the day. The specification
  has the check answer True here; the code answers False.
\<close>

theorem C1_is_cache_valid_yesterday_evening:
  "is_cache_valid update_hours
     (Stored \<lparr>last_update = At (at_time 99 22 0), data = Some [(''k'', JStr ''v'')], update_count = None\<rparr>)
     (at_time 100 5 0) = False
   \<and> date_of (at_time 99 22 0) = date_of (at_time 100 5 0) - 1
   \<and> hour_of (at_time 99 22 0) \<ge> 21
   \<and> hour_of (at_time 100 5 0) < 9"
  by (simp add: is_cache_valid_def update_hours_def at_time_def date_of_def hour_of_def
      us_per_day_def us_per_hour_def)

text \<open>
  Both collectors always return a dict with five keys, so a payload that is truthy,
  also when every source is down.
\<close>

lemma collect_all_metrics_truthy: "truthy (collect_all_metrics src now)"
  by (simp add: collect_all_metrics_def truthy_def Let_def)

lemma collect_all_crypto_data_truthy: "truthy (collect_all_crypto_data src now)"
  by (simp add: collect_all_crypto_data_def truthy_def Let_def)

lemma hollow_market:
  "collect_all_metrics market_down now = hollow_market_payload now"
  by (simp add: collect_all_metrics_def market_down_def hollow_market_payload_def source_json_def
      success_rate_def Let_def)

lemma hollow_crypto:
  "collect_all_crypto_data crypto_down now = hollow_crypto_payload now"
  by (simp add: collect_all_crypto_data_def crypto_down_def hollow_crypto_payload_def Let_def)

text \<open>
  A refresh with the collectors of the repository answers what the collector
  returned and writes it over the cache, whatever the sources gave: the market
  read has no fallback, and the fallback branches of the crypto read are never
  taken, because they wait for a falsy result or an exception.
\<close>

lemma get_market_data_refresh:
  "get_market_data True file (market_collector src now) now
     = (Inr (collect_all_metrics src now), save_cache (collect_all_metrics src now) now)"
  by (simp add: get_market_data_def market_collector_def)

lemma refresh_crypto_never_stale:
  "refresh_crypto file (crypto_collector src now) now
     = (Inr (collect_all_crypto_data src now),
        save_crypto_cache (collect_all_crypto_data src now) file now)"
  by (simp add: refresh_crypto_def crypto_collector_def collect_all_crypto_data_truthy)

text \<open>
  With the collector of the repository the market read lets no exception out. The
  crypto read lets one out exactly when the validity check raises, which it does on
  a cache file that is JSON but not the envelope.
\<close>

lemma get_market_data_real_never_raises:
  "\<exists>p. fst (get_market_data force_update file (market_collector src now) now) = Inr p"
  by (simp add: get_market_data_def market_collector_def split: option.splits)

lemma get_crypto_data_raises_iff:
  "fst (get_crypto_data force_update file collector now) = Inl e
   \<longleftrightarrow> \<not> force_update \<and> is_crypto_cache_valid crypto_update_hours file now = Inl e"
  by (auto simp: get_crypto_data_def refresh_crypto_def
      split: sum.splits option.splits collect_outcome.splits if_splits)

lemma get_crypto_data_not_dict:
  "get_crypto_data False NotDict collector now = (Inl AttributeError, NotDict)"
  by (simp add: get_crypto_data_def is_crypto_cache_valid_def)

lemma market_cache_stale: "is_cache_valid update_hours market_cache (at_time 100 22 0) = False"
  by (simp add: is_cache_valid_def update_hours_def market_cache_def save_cache_def at_time_def
      date_of_def hour_of_def us_per_day_def us_per_hour_def)

lemma crypto_cache_stale:
  "is_crypto_cache_valid crypto_update_hours crypto_cache (at_time 101 9 0) = Inr False"
  by (simp add: is_crypto_cache_valid_def crypto_cache_def save_crypto_cache_def at_time_def
      date_of_def us_per_day_def us_per_hour_def)

text \<open>
  C2. Each cache holds a good payload written in the morning of day 100. When the
  cache has gone stale and every source of the collector is down, the collector
  returns its five-key dict with nothing in it; the market read (at 22:00) and the
  crypto read (the next morning) both answer that hollow payload and write it over
  the good one. The specification has both reads answer the cached payload.
\<close>

theorem C2_reads_answer_hollow_payload:
  "load_cache market_cache = Some good_market_payload
   \<and> get_market_data False market_cache (market_collector market_down (at_time 100 22 0))
        (at_time 100 22 0)
      = (Inr (hollow_market_payload (at_time 100 22 0)),
         save_cache (hollow_market_payload (at_time 100 22 0)) (at_time 100 22 0))
   \<and> hollow_market_payload (at_time 100 22 0) \<noteq> good_market_payload
   \<and> hollow_market_payload (at_time 100 22 0) \<noteq> []
   \<and> load_cache crypto_cache = Some good_crypto_payload
   \<and> get_crypto_data False crypto_cache (crypto_collector crypto_down (at_time 101 9 0))
        (at_time 101 9 0)
      = (Inr (hollow_crypto_payload (at_time 101 9 0)),
         save_crypto_cache (hollow_crypto_payload (at_time 101 9 0)) crypto_cache (at_time 101 9 0))
   \<and> hollow_crypto_payload (at_time 101 9 0) \<noteq> good_crypto_payload
   \<and> hollow_crypto_payload (at_time 101 9 0) \<noteq> []"
proof -
  have m: "get_market_data False market_cache (market_collector market_down (at_time 100 22 0))
        (at_time 100 22 0)
      = (Inr (hollow_market_payload (at_time 100 22 0)),
         save_cache (hollow_market_payload (at_time 100 22 0)) (at_time 100 22 0))"
    by (simp add: get_market_data_def market_cache_stale market_collector_def hollow_market)
  have c: "get_crypto_data False crypto_cache (crypto_collector crypto_down (at_time 101 9 0))
        (at_time 101 9 0)
      = (Inr (hollow_crypto_payload (at_time 101 9 0)),
         save_crypto_cache (hollow_crypto_payload (at_time 101 9 0)) crypto_cache (at_time 101 9 0))"
    by (simp add: get_crypto_data_def crypto_cache_stale refresh_crypto_never_stale hollow_crypto)
  have lm: "load_cache market_cache = Some good_market_payload"
    by (simp add: load_cache_def market_cache_def save_cache_def)
  have lc: "load_cache crypto_cache = Some good_crypto_payload"
    by (simp add: load_cache_def crypto_cache_def save_crypto_cache_def)
  have nm: "hollow_market_payload (at_time 100 22 0) \<noteq> good_market_payload"
    by (simp add: hollow_market_payload_def good_market_payload_def collect_all_metrics_def
        good_market_def Let_def)
  have nc: "hollow_crypto_payload (at_time 101 9 0) \<noteq> good_crypto_payload"
    by (simp add: hollow_crypto_payload_def good_crypto_payload_def collect_all_crypto_data_def
        good_crypto_def Let_def)
  have ne: "hollow_market_payload (at_time 100 22 0) \<noteq> []"
    "hollow_crypto_payload (at_time 101 9 0) \<noteq> []"
    by (simp_all add: hollow_market_payload_def hollow_crypto_payload_def)
  from m c lm lc nm nc ne show ?thesis by blast
qed

subsection \<open>Progress percentage\<close>

text \<open>
  C8. The percentage is always a value, never \<^verbatim>\<open>ZeroDivisionError\<close>: 0 when
  \<^verbatim>\<open>total_days\<close> is 0, and \<^verbatim>\<open>collected_days / total_days * 100\<close> otherwise.
\<close>

theorem C8_progress_percentage:
  "progress_percentage p =
     Inr (if total_days p = 0 then 0
          else real_of_int (collected_days p) / real_of_int (total_days p) * 100)"
  by (simp add: progress_percentage_def py_truediv_def)

subsection \<open>The daily upsert\<close>

lemma save_one:
  "d_date r = Some d \<Longrightarrow> save_daily_data c [r] dbs = (1, insert_or_replace c d (d_values r) dbs)"
  by (simp add: save_daily_data_def)

lemma save_two:
  "d_date r1 = Some d1 \<Longrightarrow> d_date r2 = Some d2 \<Longrightarrow>
   save_daily_data c [r1, r2] dbs
     = (2, insert_or_replace c d2 (d_values r2) (insert_or_replace c d1 (d_values r1) dbs))"
  by (simp add: save_daily_data_def)

lemma same_key_insert_twice:
  "filter (same_key c d)
     (daily_prices (insert_or_replace c d v2 (insert_or_replace c d v1 dbs)))
   = [\<lparr>row_id = daily_seq dbs + 2, row_coin = c, row_date = d, row_values = v2\<rparr>]"
  by (simp add: insert_or_replace_def same_key_def)

lemma other_rows_insert:
  "filter (\<lambda>r. \<not> same_key c d r) (daily_prices (insert_or_replace c d v dbs))
   = filter (\<lambda>r. \<not> same_key c d r) (daily_prices dbs)"
  by (simp add: insert_or_replace_def same_key_def)

lemma content_insert_twice:
  "map row_content (daily_prices (insert_or_replace c d v (insert_or_replace c d v dbs)))
   = map row_content (daily_prices (insert_or_replace c d v dbs))"
  by (simp add: insert_or_replace_def same_key_def row_content_def)

text \<open>
  C7. Two writes under the same (coin, date), in two calls or in one: exactly one
  row with that key is stored and its values are those of the second write; the
  rows of other keys are as before; and writing a record a second time leaves the
  stored contents as the first write left them.
\<close>

theorem C7_upsert_last_writer_wins:
  assumes "d_date r1 = Some d" and "d_date r2 = Some d"
  shows "(\<exists>row. filter (same_key c d)
              (daily_prices (snd (save_daily_data c [r2] (snd (save_daily_data c [r1] dbs))))) = [row]
            \<and> row_values row = d_values r2)
    \<and> (\<exists>row. filter (same_key c d) (daily_prices (snd (save_daily_data c [r1, r2] dbs))) = [row]
            \<and> row_values row = d_values r2)
    \<and> filter (\<lambda>r. \<not> same_key c d r)
         (daily_prices (snd (save_daily_data c [r2] (snd (save_daily_data c [r1] dbs)))))
       = filter (\<lambda>r. \<not> same_key c d r) (daily_prices dbs)
    \<and> map row_content (daily_prices (snd (save_daily_data c [r2] (snd (save_daily_data c [r2] dbs)))))
       = map row_content (daily_prices (snd (save_daily_data c [r2] dbs)))"
  using assms
  by (simp add: save_one save_two same_key_insert_twice other_rows_insert content_insert_twice)

theorem C7_upsert_witness:
  "\<exists>row. filter (same_key ''bitcoin'' 5)
      (daily_prices (snd (save_daily_data ''bitcoin''
         [\<lparr>d_date = Some 5, d_values = vals0\<lparr>v_close := Some 2\<rparr>\<rparr>]
         (snd (save_daily_data ''bitcoin'' [\<lparr>d_date = Some 5, d_values = vals0\<rparr>] empty_db))))) = [row]
    \<and> row_values row = vals0\<lparr>v_close := Some 2\<rparr>"
  using C7_upsert_last_writer_wins [of "\<lparr>d_date = Some 5, d_values = vals0\<rparr>" 5
     "\<lparr>d_date = Some 5, d_values = vals0\<lparr>v_close := Some 2\<rparr>\<rparr>" "''bitcoin''" empty_db]
  by simp

subsection \<open>A job that is already completed\<close>

text \<open>
  C10. When the stored progress of the coin has status \<^verbatim>\<open>completed\<close>, the entry
  point returns True and the whole state is as before: progress, progress file,
  API counters, request log, sleeps and database.
\<close>

theorem C10_completed_job_is_left_alone:
  "(progress st ''bitcoin'' = Some p \<and> status p = ''completed''
      \<longrightarrow> collect_bitcoin_data env st = (Inr True, st))
   \<and> (progress st ''ethereum'' = Some p \<and> status p = ''completed''
      \<longrightarrow> collect_ethereum_data env st = (Inr True, st))"
  by (simp add: collect_bitcoin_data_def collect_ethereum_data_def collect_coin_data_def
      collect_started_def)

theorem C10_completed_witness:
  "progress done_state ''bitcoin'' = Some done_progress \<and> status done_progress = ''completed''
   \<and> collect_bitcoin_data demo_env done_state = (Inr True, done_state)"
proof -
  have p: "progress done_state ''bitcoin'' = Some done_progress" by (simp add: done_state_def)
  have s: "status done_progress = ''completed''" by (simp add: done_progress_def)
  from C10_completed_job_is_left_alone [of done_state done_progress demo_env] p s
  show ?thesis by simp
qed

subsection \<open>The range of the RSI\<close>

lemma length_diff [simp]: "length (diff ps) = length ps"
  by (cases ps) simp_all

lemma length_rolling_mean [simp]: "length (rolling_mean period xs) = length xs"
  by (simp add: rolling_mean_def)

lemma rolling_mean_nth:
  "i < length xs \<Longrightarrow> rolling_mean period xs ! i = window_mean period xs i"
  by (simp add: rolling_mean_def)

lemma calculate_rsi_nth:
  "i < length ps \<Longrightarrow>
   calculate_rsi ps period ! i = rsi_of (avg_gain ps period i) (avg_loss ps period i)"
  by (simp add: calculate_rsi_def avg_gain_def avg_loss_def Let_def)

lemma gain_of_nonneg: "0 \<le> gain_of d"
  by (simp add: gain_of_def split: option.splits)

lemma loss_of_nonneg: "0 \<le> loss_of d"
  by (simp add: loss_of_def split: option.splits)

lemma window_sum_nonneg:
  assumes "\<And>x. x \<in> set xs \<Longrightarrow> 0 \<le> (x::real)"
  shows "0 \<le> sum_list (take n (drop k xs))"
proof (rule sum_list_nonneg)
  fix x assume "x \<in> set (take n (drop k xs))"
  then have "x \<in> set xs"
    by (meson in_set_dropD in_set_takeD)
  then show "0 \<le> x" by (rule assms)
qed

lemma window_mean_full:
  assumes "\<And>x. x \<in> set xs \<Longrightarrow> 0 \<le> (x::real)" and "\<not> i + 1 < period"
  shows "\<exists>m. 0 \<le> m \<and> window_mean period xs i = Fin m"
  using window_sum_nonneg [OF assms(1)] assms(2) by (simp add: window_mean_def)

lemma window_mean_short: "i + 1 < period \<Longrightarrow> window_mean period xs i = NaN"
  by (simp add: window_mean_def)

text \<open>The RSI of a non-negative average gain and loss, case by case.\<close>

lemma rsi_of_nonneg:
  assumes "0 \<le> g" and "0 \<le> l"
  shows "rsi_of (Fin g) (Fin l) =
           (if l = 0 then (if g = 0 then NaN else Fin 100) else Fin (100 - 100 / (1 + g / l)))"
proof (cases "l = 0")
  case True
  then show ?thesis using assms by (auto simp: rsi_of_def fl_sub_def Let_def)
next
  case False
  then have "0 < 1 + g / l" using assms by (simp add: add_pos_nonneg)
  then have "1 + g / l \<noteq> 0" by simp
  then show ?thesis using False by (simp add: rsi_of_def fl_sub_def Let_def)
qed

lemma rsi_value_range:
  assumes "0 \<le> g" and "0 < (l::real)"
  shows "0 \<le> 100 - 100 / (1 + g / l) \<and> 100 - 100 / (1 + g / l) \<le> 100"
proof -
  have "1 \<le> 1 + g / l" using assms by simp
  then have "100 / (1 + g / l) \<le> 100 / 1"
    by (intro divide_left_mono) auto
  moreover have "0 \<le> 100 / (1 + g / l)" using assms by simp
  ultimately show ?thesis by simp
qed

lemma rsi_of_range:
  assumes "0 \<le> g" and "0 \<le> l"
  shows "rsi_of (Fin g) (Fin l) = NaN \<or> in_0_100 (rsi_of (Fin g) (Fin l))"
proof (cases "l = 0")
  case True
  then show ?thesis using assms by (simp add: rsi_of_nonneg in_0_100_def)
next
  case False
  then have "0 < l" using assms by simp
  from rsi_value_range [OF assms(1) this] False show ?thesis
    using assms by (simp add: rsi_of_nonneg in_0_100_def)
qed

lemma rsi_of_NaN [simp]: "rsi_of NaN NaN = NaN"
  by (simp add: rsi_of_def fl_sub_def)

text \<open>
  At a position of the series the two averages are both NaN (the window is not
  full) or both finite and non-negative.
\<close>

lemma avg_gain_cases:
  assumes "i < length ps"
  shows "(avg_gain ps period i = NaN \<and> avg_loss ps period i = NaN)
     \<or> (\<exists>g l. 0 \<le> g \<and> 0 \<le> l \<and> avg_gain ps period i = Fin g \<and> avg_loss ps period i = Fin l)"
proof (cases "i + 1 < period")
  case True
  then show ?thesis
    using assms by (simp add: avg_gain_def avg_loss_def rolling_mean_nth window_mean_short)
next
  case False
  have "\<And>x. x \<in> set (map gain_of (diff ps)) \<Longrightarrow> 0 \<le> x"
    by (auto simp: gain_of_nonneg)
  from window_mean_full [OF this False]
  obtain g where g: "0 \<le> g" "window_mean period (map gain_of (diff ps)) i = Fin g" by blast
  have "\<And>x. x \<in> set (map loss_of (diff ps)) \<Longrightarrow> 0 \<le> x"
    by (auto simp: loss_of_nonneg)
  from window_mean_full [OF this False]
  obtain l where l: "0 \<le> l" "window_mean period (map loss_of (diff ps)) i = Fin l" by blast
  from g l show ?thesis
    using assms by (auto simp: avg_gain_def avg_loss_def rolling_mean_nth)
qed

lemma avg_flat:
  "avg_loss flat_prices 14 14 = Fin 0 \<and> avg_gain flat_prices 14 14 = Fin 0"
  by (simp add: flat_prices_def avg_loss_def avg_gain_def rolling_mean_nth window_mean_def
      delta_of_def gain_of_def loss_of_def numeral_eq_Suc)

lemma avg_rising:
  "avg_loss rising_prices 14 14 = Fin 0 \<and> avg_gain rising_prices 14 14 = Fin 1"
  by (simp add: rising_prices_def avg_loss_def avg_gain_def rolling_mean_nth window_mean_def
      delta_of_def gain_of_def loss_of_def numeral_eq_Suc)

text \<open>
  C6 as stated fails on a price that does not move for 15 days: at
  the fifteenth day the 14-period average loss is 0 and the RSI is NaN, not 100
  (the average gain is 0 as well, and 0/0 is NaN).
\<close>

theorem C6_flat_prices_counterexample:
  "avg_loss flat_prices 14 14 = Fin 0 \<and> calculate_rsi flat_prices 14 ! 14 = NaN
   \<and> calculate_rsi flat_prices 14 ! 14 \<noteq> Fin 100"
proof -
  have "calculate_rsi flat_prices 14 ! 14 = rsi_of (Fin 0) (Fin 0)"
    using avg_flat by (simp add: calculate_rsi_nth flat_prices_def)
  then show ?thesis using avg_flat by (simp add: rsi_of_nonneg)
qed

text \<open>
  C6, amended. At every position of an RSI(14) series (from either module) the
  value is NaN or lies between 0 and 100. When the average loss is 0 and the
  average gain is positive the value is exactly 100; when both are 0 it is NaN.
\<close>

theorem C6_rsi_range:
  assumes "i < length ps"
  shows "(calculate_rsi ps 14 ! i = NaN \<or> in_0_100 (calculate_rsi ps 14 ! i))
    \<and> (\<exists>rs. technical_rsi ps 14 = Some rs \<and> (rs ! i = NaN \<or> in_0_100 (rs ! i))
          \<or> technical_rsi ps 14 = None \<and> length ps < 14)
    \<and> (avg_loss ps 14 i = Fin 0 \<and> (\<exists>g. 0 < g \<and> avg_gain ps 14 i = Fin g)
         \<longrightarrow> calculate_rsi ps 14 ! i = Fin 100)
    \<and> (avg_loss ps 14 i = Fin 0 \<and> avg_gain ps 14 i = Fin 0
         \<longrightarrow> calculate_rsi ps 14 ! i = NaN)"
proof -
  have nth: "calculate_rsi ps 14 ! i = rsi_of (avg_gain ps 14 i) (avg_loss ps 14 i)"
    by (rule calculate_rsi_nth [OF assms])
  have range: "calculate_rsi ps 14 ! i = NaN \<or> in_0_100 (calculate_rsi ps 14 ! i)"
  proof -
    from avg_gain_cases [OF assms, of 14] show ?thesis
    proof
      assume "avg_gain ps 14 i = NaN \<and> avg_loss ps 14 i = NaN"
      then show ?thesis by (simp add: nth)
    next
      assume "\<exists>g l. 0 \<le> g \<and> 0 \<le> l \<and> avg_gain ps 14 i = Fin g \<and> avg_loss ps 14 i = Fin l"
      then obtain g l where "0 \<le> g" "0 \<le> l" "avg_gain ps 14 i = Fin g"
        "avg_loss ps 14 i = Fin l" by blast
      then show ?thesis using rsi_of_range [of g l] by (simp add: nth)
    qed
  qed
  have tech: "\<exists>rs. technical_rsi ps 14 = Some rs \<and> (rs ! i = NaN \<or> in_0_100 (rs ! i))
          \<or> technical_rsi ps 14 = None \<and> length ps < 14"
    using range by (simp add: technical_rsi_def)
  have sat: "avg_loss ps 14 i = Fin 0 \<and> (\<exists>g. 0 < g \<and> avg_gain ps 14 i = Fin g)
         \<longrightarrow> calculate_rsi ps 14 ! i = Fin 100"
    by (auto simp: nth rsi_of_nonneg)
  have flat: "avg_loss ps 14 i = Fin 0 \<and> avg_gain ps 14 i = Fin 0
         \<longrightarrow> calculate_rsi ps 14 ! i = NaN"
    by (auto simp: nth rsi_of_nonneg)
  from range tech sat flat show ?thesis by blast
qed

theorem C6_rsi_range_witness:
  "14 < length rising_prices
   \<and> avg_loss rising_prices 14 14 = Fin 0 \<and> avg_gain rising_prices 14 14 = Fin 1
   \<and> calculate_rsi rising_prices 14 ! 14 = Fin 100
   \<and> 14 < length flat_prices
   \<and> avg_loss flat_prices 14 14 = Fin 0 \<and> avg_gain flat_prices 14 14 = Fin 0
   \<and> calculate_rsi flat_prices 14 ! 14 = NaN"
proof -
  have r: "14 < length rising_prices" by (simp add: rising_prices_def)
  have f: "14 < length flat_prices" by (simp add: flat_prices_def)
  show ?thesis
    using C6_rsi_range [OF r] C6_rsi_range [OF f] avg_rising avg_flat r f by simp
qed

subsection \<open>The incremental update\<close>

text \<open>The reader answers the greatest date among the rows of the coin.\<close>

lemma fold_max_Max: "fold max ds (d::int) = Max (set (d # ds))"
  by (simp only: Max.set_eq_fold)

lemma get_last_daily_date_is_max:
  assumes "r \<in> set (daily_prices dbs)" and "row_coin r = coin" and "row_date r = d"
    and "\<forall>r' \<in> set (daily_prices dbs). row_coin r' = coin \<longrightarrow> row_date r' \<le> d"
  shows "get_last_daily_date dbs coin = Some d"
proof -
  define ds where "ds = map row_date (filter (\<lambda>r. row_coin r = coin) (daily_prices dbs))"
  have mem: "d \<in> set ds" using assms(1-3) by (auto simp: ds_def)
  have ub: "\<And>x. x \<in> set ds \<Longrightarrow> x \<le> d" using assms(4) by (auto simp: ds_def)
  from mem obtain d0 ds' where ds: "ds = d0 # ds'" by (cases ds) auto
  have "Max (set ds) = d"
    using mem ub by (intro Max_eqI) auto
  then have "fold max ds' d0 = d" by (simp add: ds fold_max_Max)
  then show ?thesis
    by (simp add: get_last_daily_date_def ds_def [symmetric] ds)
qed

text \<open>
  C3. When the Ethereum rows of the database have d as their last date, with
  today - d at least one day (and the client present), the update issues exactly
  one request, for min(90, gap + 1) days: never more than 90, and 4 days when d is
  three days back. What the provider answers to that request, and nothing else, is
  what is written to the database.
\<close>

theorem C3_incremental_update_days:
  assumes "db_manager a = Some dbs" and "cg_present a"
    and "r \<in> set (daily_prices dbs)" and "row_coin r = ''ethereum''" and "row_date r = d"
    and "\<forall>r' \<in> set (daily_prices dbs). row_coin r' = ''ethereum'' \<longrightarrow> row_date r' \<le> d"
    and "today - d \<ge> 1"
  shows "fst (ethereum_incremental_update cg today a) = [min 90 (today - d + 1)]
    \<and> snd (ethereum_incremental_update cg today a)
        = (case cg (min 90 (today - d + 1)) of
             Fails _ \<Rightarrow> a
           | Ok history \<Rightarrow>
               if history_records history \<noteq> []
               then a\<lparr>db_manager :=
                       Some (snd (save_daily_data ''ethereum'' (history_records history) dbs))\<rparr>
               else a)
    \<and> min 90 (today - d + 1) \<le> 90
    \<and> (today - d = 3 \<longrightarrow> fst (ethereum_incremental_update cg today a) = [4])"
proof -
  have last: "get_last_daily_date dbs ''ethereum'' = Some d"
    by (rule get_last_daily_date_is_max [OF assms(3-6)])
  show ?thesis
    using assms(1,2,7) last
    by (auto simp: ethereum_incremental_update_def update_plan_def Let_def
        split: api_outcome.splits)
qed

lemma four_days_records:
  "map d_date (history_records (Chart four_days)) = [Some 100, Some 101, Some 102, Some 103]"
  by (simp add: four_days_def history_records_def ms_per_day_def nth_value_def
      change_from_def Let_def)

lemma last_after_four_days:
  "get_last_daily_date
     (snd (save_daily_data ''ethereum'' (history_records (Chart four_days)) mixed_db)) ''ethereum''
   = Some 103"
  by (simp add: four_days_def history_records_def ms_per_day_def nth_value_def
      change_from_def Let_def get_last_daily_date_def mixed_db_def
      save_daily_data_def insert_or_replace_def same_key_def empty_db_def)

theorem C3_witness:
  "db_manager mixed_analyzer = Some mixed_db \<and> cg_present mixed_analyzer
   \<and> map (\<lambda>r. (row_coin r, row_date r)) (daily_prices mixed_db)
       = [(''bitcoin'', 200), (''ethereum'', 100), (''ethereum'', 97)]
   \<and> (103::int) - 100 \<ge> 1
   \<and> fst (ethereum_incremental_update daily_provider 103 mixed_analyzer) = [4]
   \<and> map_option (\<lambda>dbs. get_last_daily_date dbs ''ethereum'')
        (db_manager (snd (ethereum_incremental_update daily_provider 103 mixed_analyzer)))
       = Some (Some 103)"
proof -
  have a: "db_manager mixed_analyzer = Some mixed_db" and c: "cg_present mixed_analyzer"
    by (simp_all add: mixed_analyzer_def)
  have rows: "map (\<lambda>r. (row_coin r, row_date r)) (daily_prices mixed_db)
       = [(''bitcoin'', 200), (''ethereum'', 100), (''ethereum'', 97)]"
    by (simp add: mixed_db_def save_daily_data_def insert_or_replace_def same_key_def empty_db_def)
  define r where "r = daily_prices mixed_db ! 1"
  have r: "r \<in> set (daily_prices mixed_db)" "row_coin r = ''ethereum''" "row_date r = 100"
    and ub: "\<forall>r' \<in> set (daily_prices mixed_db). row_coin r' = ''ethereum'' \<longrightarrow> row_date r' \<le> 100"
    unfolding r_def
    by (simp_all add: mixed_db_def save_daily_data_def insert_or_replace_def same_key_def empty_db_def)
  have g: "(103::int) - 100 \<ge> 1" by simp
  from C3_incremental_update_days [OF a c r ub g, of daily_provider]
  have req: "fst (ethereum_incremental_update daily_provider 103 mixed_analyzer) = [4]"
    and res: "snd (ethereum_incremental_update daily_provider 103 mixed_analyzer)
        = (case daily_provider 4 of
             Fails _ \<Rightarrow> mixed_analyzer
           | Ok history \<Rightarrow>
               if history_records history \<noteq> []
               then mixed_analyzer\<lparr>db_manager :=
                       Some (snd (save_daily_data ''ethereum'' (history_records history) mixed_db))\<rparr>
               else mixed_analyzer)"
    by simp_all
  have ne: "history_records (Chart four_days) \<noteq> []"
    using four_days_records by auto
  have last: "map_option (\<lambda>dbs. get_last_daily_date dbs ''ethereum'')
        (db_manager (snd (ethereum_incremental_update daily_provider 103 mixed_analyzer)))
       = Some (Some 103)"
    unfolding res by (simp add: daily_provider_def ne last_after_four_days)
  from a c rows g req last show ?thesis by blast
qed

subsection \<open>One request, one page\<close>

lemma make_api_request_ok:
  assumes "env (total_requests (api_stats st) + 1) req = Ok r"
  shows "make_api_request env req st =
     (Some r, st\<lparr>api_stats := (api_stats st)\<lparr>total_requests := total_requests (api_stats st) + 1,
                    successful_requests := successful_requests (api_stats st) + 1\<rparr>,
                 clock := clock st + 100000, sleep_log := sleep_log st @ [100000],
                 request_log := request_log st @ [req]\<rparr>)"
  using assms by (simp add: make_api_request_def sleep_def Let_def)

lemma make_api_request_rate_limited:
  assumes "env (total_requests (api_stats st) + 1) req = Fails msg"
    and "contains ''rate limit'' (lower msg)"
  shows "make_api_request env req st =
     (None, st\<lparr>api_stats := (api_stats st)\<lparr>total_requests := total_requests (api_stats st) + 1,
                    failed_requests := failed_requests (api_stats st) + 1,
                    rate_limit_hits := rate_limit_hits (api_stats st) + 1\<rparr>,
                 clock := clock st + 100000 + 60000000, sleep_log := sleep_log st @ [100000, 60000000],
                 request_log := request_log st @ [req]\<rparr>)"
  using assms by (simp add: make_api_request_def sleep_def Let_def)

lemma page_ok:
  assumes "progress st coin = Some p"
    and "\<And>req. env (total_requests (api_stats st) + 1) req = Ok (Chart ch)"
    and "prices ch = Some ps"
    and "process_market_chart_data ch sd \<noteq> []"
  shows "\<exists>tc' st'. collect_page env coin sd tdn cr (tc, st) = (tc', st')
     \<and> progress st' coin
         = Some (p\<lparr>collected_days := collected_days p + int (length (process_market_chart_data ch sd))\<rparr>)
     \<and> api_stats st' = (api_stats st)\<lparr>total_requests := total_requests (api_stats st) + 1,
                    successful_requests := successful_requests (api_stats st) + 1\<rparr>
     \<and> sleep_log st' = sleep_log st @ [100000, 2000000]
     \<and> request_log st' = request_log st @ [MarketChartReq coin (min 365 (tdn - tc))]"
  using assms
  by (simp add: collect_page_def make_api_request_ok usable_chart_def page_saved_def
      upd_progress_def save_progress_def sleep_def Let_def case_prod_beta)

lemma page_rate_limited:
  assumes "progress st coin = Some p"
    and "\<And>req. env (total_requests (api_stats st) + 1) req = Fails msg"
    and "contains ''rate limit'' (lower msg)"
  shows "\<exists>st'. collect_page env coin sd tdn cr (tc, st) = (tc, st')
     \<and> progress st' coin
         = Some (p\<lparr>errors := errors p @ [FetchErrorForRequest cr],
                  last_error := Some (FetchErrorForRequest cr)\<rparr>)
     \<and> api_stats st' = (api_stats st)\<lparr>total_requests := total_requests (api_stats st) + 1,
                    failed_requests := failed_requests (api_stats st) + 1,
                    rate_limit_hits := rate_limit_hits (api_stats st) + 1\<rparr>
     \<and> sleep_log st' = sleep_log st @ [100000, 60000000, 2000000]
     \<and> request_log st' = request_log st @ [MarketChartReq coin (min 365 (tdn - tc))]"
  using assms
  by (simp add: collect_page_def make_api_request_rate_limited usable_chart_def page_failed_def
      upd_progress_def sleep_def Let_def case_prod_beta)

text \<open>A job of three pages runs the loop body for the requests 1, 2 and 3.\<close>

lemma collect_loop_three:
  "collect_loop env coin sd tdn 3 0 acc =
     collect_page env coin sd tdn 3 (collect_page env coin sd tdn 2 (collect_page env coin sd tdn 1 acc))"
  by simp

subsection \<open>The completion check\<close>

lemma finish_collection_completed:
  assumes "progress st coin = Some p"
    and "real_of_int (collected_days p) \<ge> real_of_int (total_days p) * (95 / 100)"
  shows "progress (snd (finish_collection coin tc st)) coin
           = Some (p\<lparr>status := ''completed'', collection_end := Some (clock st)\<rparr>)
     \<and> fst (finish_collection coin tc st)
           = (case collection_start p of None \<Rightarrow> Inl TypeError | Some _ \<Rightarrow> Inr True)
     \<and> api_stats (snd (finish_collection coin tc st)) = api_stats st
     \<and> sleep_log (snd (finish_collection coin tc st)) = sleep_log st
     \<and> request_log (snd (finish_collection coin tc st)) = request_log st"
  using assms
  by (simp add: finish_collection_def upd_progress_def save_progress_def Let_def
      split: option.splits)

lemma finish_collection_error:
  assumes "progress st coin = Some p"
    and "\<not> real_of_int (collected_days p) \<ge> real_of_int (total_days p) * (95 / 100)"
  shows "progress (snd (finish_collection coin tc st)) coin
           = Some (p\<lparr>status := ''error'',
                    last_error := Some (CollectedOnly (collected_days p) (total_days p))\<rparr>)
     \<and> fst (finish_collection coin tc st) = Inr False
     \<and> api_stats (snd (finish_collection coin tc st)) = api_stats st
     \<and> sleep_log (snd (finish_collection coin tc st)) = sleep_log st
     \<and> request_log (snd (finish_collection coin tc st)) = request_log st"
  using assms
  by (simp add: finish_collection_def upd_progress_def save_progress_def Let_def)

lemma store_metadata_frame [simp]:
  "progress (store_metadata cc coin r st) = progress st"
  "api_stats (store_metadata cc coin r st) = api_stats st"
  "sleep_log (store_metadata cc coin r st) = sleep_log st"
  "request_log (store_metadata cc coin r st) = request_log st"
  by (simp_all add: store_metadata_def split: option.splits)

lemma make_api_request_progress [simp]:
  "progress (snd (make_api_request env req st)) = progress st"
  by (simp add: make_api_request_def sleep_def Let_def split: api_outcome.splits)

lemma collect_page_keeps_job:
  assumes "progress st coin = Some p"
  shows "\<exists>p'. progress (snd (collect_page env coin sd tdn cr (tc, st))) coin = Some p'
     \<and> collection_start p' = collection_start p \<and> total_days p' = total_days p
     \<and> status p' = status p"
  using assms
  by (auto simp: collect_page_def make_api_request_def usable_chart_def page_saved_def
      page_empty_def page_failed_def upd_progress_def save_progress_def sleep_def Let_def
      case_prod_beta split: api_outcome.splits option.splits api_response.splits)

lemma collect_loop_keeps_job:
  "progress (snd acc) coin = Some p \<Longrightarrow>
   \<exists>p'. progress (snd (collect_loop env coin sd tdn rn cr acc)) coin = Some p'
     \<and> collection_start p' = collection_start p \<and> total_days p' = total_days p
     \<and> status p' = status p"
proof (induction env coin sd tdn rn cr acc arbitrary: p rule: collect_loop.induct)
  case (1 env coin sd tdn rn cr acc)
  show ?case
  proof (cases "cr < rn")
    case False
    then show ?thesis using "1.prems" by (subst collect_loop.simps) simp
  next
    case True
    obtain tc st where acc: "acc = (tc, st)" by (cases acc)
    from collect_page_keeps_job [of st coin p env sd tdn "cr + 1" tc] "1.prems" acc
    obtain p1 where p1: "progress (snd (collect_page env coin sd tdn (cr + 1) acc)) coin = Some p1"
      "collection_start p1 = collection_start p" "total_days p1 = total_days p"
      "status p1 = status p"
      by auto
    from "1.IH" [OF True p1(1)] p1(2-) True show ?thesis
      by (subst collect_loop.simps) auto
  qed
qed

lemma collect_started_terminal:
  assumes "progress st coin = Some p" and "status p \<noteq> ''completed''"
  shows "\<exists>r st' p'. collect_started cc env coin st = (r, st') \<and> progress st' coin = Some p'
     \<and> total_days p' = total_days p
     \<and> (if real_of_int (collected_days p') \<ge> real_of_int (total_days p') * (95 / 100)
         then status p' = ''completed'' \<and> collection_end p' \<noteq> None
              \<and> r = (case collection_start p of None \<Rightarrow> Inl TypeError | Some _ \<Rightarrow> Inr True)
         else status p' = ''error''
              \<and> last_error p' = Some (CollectedOnly (collected_days p') (total_days p'))
              \<and> r = Inr False)"
proof -
  define st2 where
    "st2 = store_metadata cc coin (fst (make_api_request env (CoinInfoReq coin) st))
             (snd (make_api_request env (CoinInfoReq coin) st))"
  define tdn where "tdn = days_between (end_date p) (start_date p)"
  define res where
    "res = collect_loop env coin (start_date p) tdn ((tdn + 365 - 1) div 365) 0 (0, st2)"
  have "progress (snd (0::int, st2)) coin = Some p"
    using assms(1) by (simp add: st2_def)
  from collect_loop_keeps_job [OF this, of env "start_date p" tdn "(tdn + 365 - 1) div 365" 0]
  obtain p3 where p3: "progress (snd res) coin = Some p3"
    "collection_start p3 = collection_start p" "total_days p3 = total_days p"
    unfolding res_def by blast
  have run: "collect_started cc env coin st = finish_collection coin (fst res) (snd res)"
    using assms
    by (simp add: collect_started_def Let_def case_prod_beta res_def st2_def tdn_def)
  show ?thesis
  proof (cases "real_of_int (collected_days p3) \<ge> real_of_int (total_days p3) * (95 / 100)")
    case True
    from finish_collection_completed [OF p3(1) True, of "fst res"] True p3 show ?thesis
      by (simp add: run prod_eq_iff)
  next
    case False
    from finish_collection_error [OF p3(1) False, of "fst res"] False p3 show ?thesis
      by (simp add: run prod_eq_iff)
  qed
qed

lemmas run_defs = collect_bitcoin_data_def collect_coin_data_def collect_started_def
  start_collection_def initialize_collection_def start_dates_def save_progress_def
  upd_progress_def make_api_request_def sleep_def store_metadata_def metadata_of_def
  empty_info_def bitcoin_consts_def days_between_def us_per_day_def collect_page_def
  usable_chart_def process_market_chart_data_def date_of_def ms_per_day_def nth_value_def
  change_24h_def page_saved_def page_empty_def page_failed_def save_daily_data_def
  insert_or_replace_def same_key_def finish_collection_def save_collection_stats_def
  save_coin_metadata_def new_collector_def empty_db_def two_points_def Let_def
  upper_def upper_char_def lower_def lower_char_def

text \<open>
  C4. \<^verbatim>\<open>initialize_collection('bitcoin')\<close> leaves a pending job whose
  \<^verbatim>\<open>collection_start\<close> is None. \<^verbatim>\<open>collect_bitcoin_data\<close> on it fetches the one
  page, finds 2 of 1 days collected, sets the status to completed and
  \<^verbatim>\<open>collection_end\<close>, and then raises \<^verbatim>\<open>TypeError\<close> while computing the collection
  time: the job is completed and the function does not return True.
\<close>

theorem C4_completed_job_raises_without_start:
  "(case collect_bitcoin_data demo_env pending_state of
      (r, st') \<Rightarrow> (r, map_option job_summary (progress st' ''bitcoin'')))
     = (Inl TypeError, Some (''completed'', 2, 1, None, True))
   \<and> map_option job_summary (progress pending_state ''bitcoin'')
     = Some (''pending'', 0, 1, None, False)"
  by (simp add: run_defs demo_env_def pending_state_def job_summary_def)

subsection \<open>A rate-limited page\<close>

lemma two_points_data:
  "length (process_market_chart_data two_points (17167 * us_per_day)) = 2"
  by (simp add: run_defs)

lemma rate_limit_msg_matches: "contains ''rate limit'' (lower rate_limit_msg)"
  by (simp add: rate_limit_msg_def lower_def lower_char_def)

lemma three_page_run:
  assumes p: "progress st coin = Some p" and nc: "status p \<noteq> ''completed''"
    and three: "(days_between (end_date p) (start_date p) + 365 - 1) div 365 = 3"
    and e1: "\<And>req. env (total_requests (api_stats st) + 1) req = Ok r0"
    and e2: "\<And>req. env (total_requests (api_stats st) + 2) req = Ok (Chart ch1)"
    and c1: "prices ch1 = Some ps1"
    and d1: "process_market_chart_data ch1 (start_date p) \<noteq> []"
    and e3: "\<And>req. env (total_requests (api_stats st) + 3) req = Fails msg"
    and rl: "contains ''rate limit'' (lower msg)"
    and e4: "\<And>req. env (total_requests (api_stats st) + 4) req = Ok (Chart ch3)"
    and c3: "prices ch3 = Some ps3"
    and d3: "process_market_chart_data ch3 (start_date p) \<noteq> []"
  shows "\<exists>r st' p'. collect_coin_data cc env coin st = (r, st')
     \<and> progress st' coin = Some p'
     \<and> rate_limit_hits (api_stats st') = rate_limit_hits (api_stats st) + 1
     \<and> failed_requests (api_stats st') = failed_requests (api_stats st) + 1
     \<and> successful_requests (api_stats st') = successful_requests (api_stats st) + 3
     \<and> total_requests (api_stats st') = total_requests (api_stats st) + 4
     \<and> length (request_log st') = length (request_log st) + 4
     \<and> sleep_log st' = sleep_log st
           @ [100000, 100000, 2000000, 100000, 60000000, 2000000, 100000, 2000000]
     \<and> errors p' = errors p @ [FetchErrorForRequest 2]
     \<and> collected_days p' = collected_days p
           + int (length (process_market_chart_data ch1 (start_date p)))
           + int (length (process_market_chart_data ch3 (start_date p)))
     \<and> total_days p' = total_days p
     \<and> (if real_of_int (collected_days p') \<ge> real_of_int (total_days p') * (95 / 100)
         then status p' = ''completed'' \<and> (collection_start p = None \<or> r = Inr True)
         else status p' = ''error'' \<and> r = Inr False)"
proof -
  define n where "n = total_requests (api_stats st)"
  define tdn where "tdn = days_between (end_date p) (start_date p)"
  define sd where "sd = start_date p"
  define st0 where "st0 = snd (make_api_request env (CoinInfoReq coin) st)"
  define st1 where "st1 = store_metadata cc coin (Some r0) st0"
  note mk = make_api_request_ok [where env = env and st = st and r = r0
      and req = "CoinInfoReq coin", OF e1]
  have req0: "make_api_request env (CoinInfoReq coin) st = (Some r0, st0)"
    unfolding st0_def by (simp add: mk)
  have s1: "progress st1 coin = Some p"
    "api_stats st1 = (api_stats st)\<lparr>total_requests := n + 1,
        successful_requests := successful_requests (api_stats st) + 1\<rparr>"
    "sleep_log st1 = sleep_log st @ [100000]"
    "request_log st1 = request_log st @ [CoinInfoReq coin]"
    unfolding st1_def st0_def n_def by (simp_all add: mk p)
  have e2': "\<And>req. env (total_requests (api_stats st1) + 1) req = Ok (Chart ch1)"
    using e2 by (simp add: s1 n_def)
  from page_ok [where env = env and tdn = tdn and cr = 1 and tc = 0, OF s1(1) e2' c1 d1 [folded sd_def]]
  obtain tc1 st2 where pg1: "collect_page env coin sd tdn 1 (0, st1) = (tc1, st2)"
    and s2: "progress st2 coin
         = Some (p\<lparr>collected_days := collected_days p + int (length (process_market_chart_data ch1 sd))\<rparr>)"
      "api_stats st2 = (api_stats st1)\<lparr>total_requests := total_requests (api_stats st1) + 1,
                    successful_requests := successful_requests (api_stats st1) + 1\<rparr>"
      "sleep_log st2 = sleep_log st1 @ [100000, 2000000]"
      "request_log st2 = request_log st1 @ [MarketChartReq coin (min 365 (tdn - 0))]"
    by (auto simp: sd_def)
  have e3': "\<And>req. env (total_requests (api_stats st2) + 1) req = Fails msg"
    proof -
    fix req
    have "total_requests (api_stats st2) + 1 = total_requests (api_stats st) + 3"
      by (simp add: s2 s1 n_def)
    then show "env (total_requests (api_stats st2) + 1) req = Fails msg"
      using e3 by (simp only:)
  qed
  from page_rate_limited [where env = env and sd = sd and tdn = tdn and cr = 2 and tc = tc1,
      OF s2(1) e3' rl]
  obtain st3 where pg2: "collect_page env coin sd tdn 2 (tc1, st2) = (tc1, st3)"
    and s3: "progress st3 coin
         = Some (p\<lparr>collected_days := collected_days p + int (length (process_market_chart_data ch1 sd)),
                  errors := errors p @ [FetchErrorForRequest 2],
                  last_error := Some (FetchErrorForRequest 2)\<rparr>)"
      "api_stats st3 = (api_stats st2)\<lparr>total_requests := total_requests (api_stats st2) + 1,
                    failed_requests := failed_requests (api_stats st2) + 1,
                    rate_limit_hits := rate_limit_hits (api_stats st2) + 1\<rparr>"
      "sleep_log st3 = sleep_log st2 @ [100000, 60000000, 2000000]"
      "request_log st3 = request_log st2 @ [MarketChartReq coin (min 365 (tdn - tc1))]"
    by auto
  have e4': "\<And>req. env (total_requests (api_stats st3) + 1) req = Ok (Chart ch3)"
    proof -
    fix req
    have "total_requests (api_stats st3) + 1 = total_requests (api_stats st) + 4"
      by (simp add: s3 s2 s1 n_def)
    then show "env (total_requests (api_stats st3) + 1) req = Ok (Chart ch3)"
      using e4 by (simp only:)
  qed
  from page_ok [where env = env and tdn = tdn and cr = 3 and tc = tc1,
      OF s3(1) e4' c3 d3 [folded sd_def]]
  obtain tc3 st4 where pg3: "collect_page env coin sd tdn 3 (tc1, st3) = (tc3, st4)"
    and s4: "progress st4 coin
         = Some (p\<lparr>collected_days := collected_days p + int (length (process_market_chart_data ch1 sd))
                        + int (length (process_market_chart_data ch3 sd)),
                  errors := errors p @ [FetchErrorForRequest 2],
                  last_error := Some (FetchErrorForRequest 2)\<rparr>)"
      "api_stats st4 = (api_stats st3)\<lparr>total_requests := total_requests (api_stats st3) + 1,
                    successful_requests := successful_requests (api_stats st3) + 1\<rparr>"
      "sleep_log st4 = sleep_log st3 @ [100000, 2000000]"
      "request_log st4 = request_log st3 @ [MarketChartReq coin (min 365 (tdn - tc1))]"
    by auto
  have loop: "collect_loop env coin sd tdn 3 0 (0, st1) = (tc3, st4)"
    by (simp only: collect_loop_three pg1 pg2 pg3)
  have run: "collect_coin_data cc env coin st = finish_collection coin tc3 st4"
    using p nc three loop
    by (simp add: collect_coin_data_def collect_started_def req0 st1_def [symmetric]
        tdn_def sd_def Let_def)
  define p4 where "p4 = p\<lparr>collected_days := collected_days p + int (length (process_market_chart_data ch1 sd))
                        + int (length (process_market_chart_data ch3 sd)),
                  errors := errors p @ [FetchErrorForRequest 2],
                  last_error := Some (FetchErrorForRequest 2)\<rparr>"
  have s4p: "progress st4 coin = Some p4" by (simp add: s4 p4_def)
  have counters: "rate_limit_hits (api_stats st4) = rate_limit_hits (api_stats st) + 1"
    "failed_requests (api_stats st4) = failed_requests (api_stats st) + 1"
    "successful_requests (api_stats st4) = successful_requests (api_stats st) + 3"
    "total_requests (api_stats st4) = total_requests (api_stats st) + 4"
    "length (request_log st4) = length (request_log st) + 4"
    "sleep_log st4 = sleep_log st
           @ [100000, 100000, 2000000, 100000, 60000000, 2000000, 100000, 2000000]"
    by (simp_all add: s4 s3 s2 s1 n_def)
  show ?thesis
  proof (cases "real_of_int (collected_days p4) \<ge> real_of_int (total_days p4) * (95 / 100)")
    case True
    from finish_collection_completed [OF s4p True, of tc3] counters True show ?thesis
      by (cases "collection_start p") (simp_all add: run p4_def sd_def prod_eq_iff)
  next
    case False
    from finish_collection_error [OF s4p False, of tc3] counters False show ?thesis
      by (simp add: run p4_def sd_def prod_eq_iff)
  qed
qed

lemma started_state_facts:
  "progress started_state ''bitcoin'' = Some started_progress"
  "total_requests (api_stats started_state) = 0"
  "rate_limit_hits (api_stats started_state) = 0"
  by (simp_all add: started_state_def started_progress_def start_collection_def
      initialize_collection_def start_dates_def save_progress_def upd_progress_def
      new_collector_def days_between_def us_per_day_def Let_def)

text \<open>
  C5 as stated fails on the interrupted three-page job: the second
  page is answered with a rate-limit failure and the others succeed. The run hits
  the rate limit once and ends completed, but \<^verbatim>\<open>errors\<close> has grown from no entry
  to one, and four requests were issued in all (the metadata and one per page):
  page 2 was not requested again.
\<close>

theorem C5_rate_limit_counterexample:
  "fst (collect_bitcoin_data limited_env resumed_state) = Inr True
   \<and> map_option status (progress (snd (collect_bitcoin_data limited_env resumed_state)) ''bitcoin'')
       = Some ''completed''
   \<and> map_option errors (progress (snd (collect_bitcoin_data limited_env resumed_state)) ''bitcoin'')
       = Some [FetchErrorForRequest 2]
   \<and> map_option errors (progress resumed_state ''bitcoin'') = Some []
   \<and> length (request_log (snd (collect_bitcoin_data limited_env resumed_state))) = 4
   \<and> request_log resumed_state = []
   \<and> rate_limit_hits (api_stats (snd (collect_bitcoin_data limited_env resumed_state))) = 1"
proof -
  have p: "progress resumed_state ''bitcoin'' = Some resumed_progress"
    by (simp add: resumed_state_def)
  have nc: "status resumed_progress \<noteq> ''completed''"
    by (simp add: resumed_progress_def)
  have three: "(days_between (end_date resumed_progress) (start_date resumed_progress) + 365 - 1)
      div 365 = 3"
    by (simp add: resumed_progress_def days_between_def us_per_day_def)
  have n: "total_requests (api_stats resumed_state) = 0"
    by (simp add: resumed_state_def new_collector_def)
  have e1: "\<And>req. limited_env (total_requests (api_stats resumed_state) + 1) req = Ok (Info empty_info)"
    and e2: "\<And>req. limited_env (total_requests (api_stats resumed_state) + 2) req = Ok (Chart two_points)"
    and e3: "\<And>req. limited_env (total_requests (api_stats resumed_state) + 3) req = Fails rate_limit_msg"
    and e4: "\<And>req. limited_env (total_requests (api_stats resumed_state) + 4) req = Ok (Chart two_points)"
    by (simp_all add: n limited_env_def)
  have c: "prices two_points = Some [(17167 * ms_per_day, 1000), (17167 * ms_per_day + 3600000, 1010)]"
    by (simp add: two_points_def)
  have sd: "start_date resumed_progress = 17167 * us_per_day"
    by (simp add: resumed_progress_def)
  have d: "process_market_chart_data two_points (start_date resumed_progress) \<noteq> []"
    using two_points_data by (auto simp: sd)
  from three_page_run [where env = limited_env and cc = bitcoin_consts,
      OF p nc three e1 e2 c d e3 rate_limit_msg_matches e4 c d]
  obtain r st' p' where run: "collect_coin_data bitcoin_consts limited_env ''bitcoin'' resumed_state = (r, st')"
    and facts: "progress st' ''bitcoin'' = Some p'"
      "rate_limit_hits (api_stats st') = rate_limit_hits (api_stats resumed_state) + 1"
      "length (request_log st') = length (request_log resumed_state) + 4"
      "errors p' = errors resumed_progress @ [FetchErrorForRequest 2]"
      "collected_days p' = collected_days resumed_progress
           + int (length (process_market_chart_data two_points (start_date resumed_progress)))
           + int (length (process_market_chart_data two_points (start_date resumed_progress)))"
      "total_days p' = total_days resumed_progress"
      "if real_of_int (collected_days p') \<ge> real_of_int (total_days p') * (95 / 100)
         then status p' = ''completed'' \<and> (collection_start resumed_progress = None \<or> r = Inr True)
         else status p' = ''error'' \<and> r = Inr False"
    by blast
  have cd: "collected_days p' = 704" "total_days p' = 731"
    using facts(5,6) two_points_data by (simp_all add: sd) (simp_all add: resumed_progress_def)
  have fin: "status p' = ''completed''" "r = Inr True"
    using facts(7) by (simp_all add: cd) (simp_all add: resumed_progress_def)
  have init: "errors resumed_progress = []" "request_log resumed_state = []"
    "rate_limit_hits (api_stats resumed_state) = 0"
    by (simp_all add: resumed_progress_def resumed_state_def new_collector_def)
  show ?thesis
    using facts(1-4) fin init p by (simp add: collect_bitcoin_data_def run)
qed

text \<open>
  C5, amended. In a job of three pages whose second page is answered with a
  rate-limit failure while the metadata request and the pages 1 and 3 succeed with
  records: \<^verbatim>\<open>rate_limit_hits\<close> and \<^verbatim>\<open>failed_requests\<close> grow by 1, the 60 s
  cooldown is slept, four requests are issued in all (page 2 is not retried),
  \<^verbatim>\<open>errors\<close> grows by the one entry for request 2, \<^verbatim>\<open>collected_days\<close> grows by the
  records of the pages 1 and 3, and the job ends completed iff
  \<^verbatim>\<open>collected_days\<close> has reached 95% of \<^verbatim>\<open>total_days\<close>, else in error with False
  returned.
\<close>

theorem C5_rate_limited_page_is_not_retried:
  assumes p: "progress st coin = Some p" and nc: "status p \<noteq> ''completed''"
    and three: "(days_between (end_date p) (start_date p) + 365 - 1) div 365 = 3"
    and e1: "\<And>req. env (total_requests (api_stats st) + 1) req = Ok r0"
    and e2: "\<And>req. env (total_requests (api_stats st) + 2) req = Ok (Chart ch1)"
    and c1: "prices ch1 = Some ps1"
    and d1: "process_market_chart_data ch1 (start_date p) \<noteq> []"
    and e3: "\<And>req. env (total_requests (api_stats st) + 3) req = Fails msg"
    and rl: "contains ''rate limit'' (lower msg)"
    and e4: "\<And>req. env (total_requests (api_stats st) + 4) req = Ok (Chart ch3)"
    and c3: "prices ch3 = Some ps3"
    and d3: "process_market_chart_data ch3 (start_date p) \<noteq> []"
  shows "\<exists>r st' p'. collect_coin_data cc env coin st = (r, st')
     \<and> progress st' coin = Some p'
     \<and> rate_limit_hits (api_stats st') = rate_limit_hits (api_stats st) + 1
     \<and> failed_requests (api_stats st') = failed_requests (api_stats st) + 1
     \<and> successful_requests (api_stats st') = successful_requests (api_stats st) + 3
     \<and> total_requests (api_stats st') = total_requests (api_stats st) + 4
     \<and> length (request_log st') = length (request_log st) + 4
     \<and> sleep_log st' = sleep_log st
           @ [100000, 100000, 2000000, 100000, 60000000, 2000000, 100000, 2000000]
     \<and> errors p' = errors p @ [FetchErrorForRequest 2]
     \<and> collected_days p' = collected_days p
           + int (length (process_market_chart_data ch1 (start_date p)))
           + int (length (process_market_chart_data ch3 (start_date p)))
     \<and> total_days p' = total_days p
     \<and> (if real_of_int (collected_days p') \<ge> real_of_int (total_days p') * (95 / 100)
         then status p' = ''completed'' \<and> (collection_start p = None \<or> r = Inr True)
         else status p' = ''error'' \<and> r = Inr False)"
  by (rule three_page_run [where env = env, OF assms])

theorem C5_rate_limited_page_witness:
  "progress started_state ''bitcoin'' = Some started_progress
   \<and> status started_progress \<noteq> ''completed''
   \<and> (days_between (end_date started_progress) (start_date started_progress) + 365 - 1) div 365 = 3
   \<and> limited_env 3 (MarketChartReq ''bitcoin'' 365) = Fails rate_limit_msg
   \<and> contains ''rate limit'' (lower rate_limit_msg)
   \<and> (\<exists>r st' p'. collect_coin_data bitcoin_consts limited_env ''bitcoin'' started_state = (r, st')
        \<and> progress st' ''bitcoin'' = Some p'
        \<and> rate_limit_hits (api_stats st') = 1
        \<and> total_requests (api_stats st') = 4
        \<and> errors p' = [FetchErrorForRequest 2]
        \<and> collected_days p' = 4
        \<and> status p' = ''error'' \<and> r = Inr False)"
proof -
  note p = started_state_facts(1)
  have nc: "status started_progress \<noteq> ''completed''"
    by (simp add: started_progress_def)
  have three: "(days_between (end_date started_progress) (start_date started_progress) + 365 - 1)
      div 365 = 3"
    by (simp add: started_progress_def days_between_def us_per_day_def)
  have e1: "\<And>req. limited_env (total_requests (api_stats started_state) + 1) req = Ok (Info empty_info)"
    and e2: "\<And>req. limited_env (total_requests (api_stats started_state) + 2) req = Ok (Chart two_points)"
    and e3: "\<And>req. limited_env (total_requests (api_stats started_state) + 3) req = Fails rate_limit_msg"
    and e4: "\<And>req. limited_env (total_requests (api_stats started_state) + 4) req = Ok (Chart two_points)"
    by (simp_all add: started_state_facts limited_env_def)
  have c: "prices two_points = Some [(17167 * ms_per_day, 1000), (17167 * ms_per_day + 3600000, 1010)]"
    by (simp add: two_points_def)
  have sd: "start_date started_progress = 17167 * us_per_day"
    by (simp add: started_progress_def)
  have d: "process_market_chart_data two_points (start_date started_progress) \<noteq> []"
    using two_points_data by (auto simp: sd)
  have len: "length (process_market_chart_data two_points (start_date started_progress)) = 2"
    using two_points_data by (simp add: sd)
  have init: "errors started_progress = []" "collected_days started_progress = 0"
    "total_days started_progress = 731"
    by (simp_all add: started_progress_def)
  have l3: "limited_env 3 (MarketChartReq ''bitcoin'' 365) = Fails rate_limit_msg"
    by (simp add: limited_env_def)
  from C5_rate_limited_page_is_not_retried [where env = limited_env and cc = bitcoin_consts,
      OF p nc three e1 e2 c d e3 rate_limit_msg_matches e4 c d]
  obtain r st' p' where run:
      "collect_coin_data bitcoin_consts limited_env ''bitcoin'' started_state = (r, st')"
    and facts: "progress st' ''bitcoin'' = Some p'"
      "rate_limit_hits (api_stats st') = rate_limit_hits (api_stats started_state) + 1"
      "total_requests (api_stats st') = total_requests (api_stats started_state) + 4"
      "errors p' = errors started_progress @ [FetchErrorForRequest 2]"
      "collected_days p' = collected_days started_progress
           + int (length (process_market_chart_data two_points (start_date started_progress)))
           + int (length (process_market_chart_data two_points (start_date started_progress)))"
      "total_days p' = total_days started_progress"
      "if real_of_int (collected_days p') \<ge> real_of_int (total_days p') * (95 / 100)
         then status p' = ''completed'' \<and> (collection_start started_progress = None \<or> r = Inr True)
         else status p' = ''error'' \<and> r = Inr False"
    by blast
  have cd: "collected_days p' = 4" "total_days p' = 731"
    using facts(5,6) by (simp_all add: len init)
  have fin: "status p' = ''error''" "r = Inr False"
    using facts(7) by (simp_all add: cd)
  have "collect_coin_data bitcoin_consts limited_env ''bitcoin'' started_state = (r, st')
        \<and> progress st' ''bitcoin'' = Some p'
        \<and> rate_limit_hits (api_stats st') = 1
        \<and> total_requests (api_stats st') = 4
        \<and> errors p' = [FetchErrorForRequest 2]
        \<and> collected_days p' = 4
        \<and> status p' = ''error'' \<and> r = Inr False"
    using run facts(1-4) cd fin by (simp add: init started_state_facts)
  then show ?thesis
    using p nc three l3 rate_limit_msg_matches by blast
qed

subsection \<open>Days collected against days in the job\<close>

lemma fresh_run_summary:
  "map_option job_summary (progress fresh_run ''bitcoin'')
     = Some (''completed'', 2, 1, Some (17168 * us_per_day), True)
   \<and> map row_date (daily_prices (dbase fresh_run)) = [17167]"
  by (simp add: fresh_run_def run_defs demo_env_def job_summary_def)

text \<open>
  C9. A page with records adds the number of its records to \<^verbatim>\<open>collected_days\<close>
  whatever the database holds. In the run of a new collector on a one-day job the
  page brings two records of one date: one row is stored, \<^verbatim>\<open>collected_days\<close> is 2
  of 1 and the percentage is 200.
\<close>

theorem C9_collected_days_counts_every_record:
  assumes "progress st coin = Some p"
    and "env (total_requests (api_stats st) + 1) (MarketChartReq coin (min 365 (tdn - tc)))
           = Ok (Chart ch)"
    and "prices ch = Some ps"
    and "process_market_chart_data ch sd \<noteq> []"
  shows "progress (snd (collect_page env coin sd tdn cr (tc, st\<lparr>dbase := dbs\<rparr>))) coin
         = Some (p\<lparr>collected_days :=
                    collected_days p + int (length (process_market_chart_data ch sd))\<rparr>)
    \<and> (\<exists>q. progress fresh_run ''bitcoin'' = Some q \<and> collected_days q = 2 \<and> total_days q = 1
          \<and> progress_percentage q = Inr 200
          \<and> length (daily_prices (dbase fresh_run)) = 1)"
proof -
  have step: "progress (snd (collect_page env coin sd tdn cr (tc, st\<lparr>dbase := dbs\<rparr>))) coin
         = Some (p\<lparr>collected_days :=
                    collected_days p + int (length (process_market_chart_data ch sd))\<rparr>)"
    using assms
    by (simp add: collect_page_def make_api_request_def usable_chart_def page_saved_def
        upd_progress_def save_progress_def sleep_def Let_def case_prod_beta)
  from fresh_run_summary obtain q where q: "progress fresh_run ''bitcoin'' = Some q"
    "job_summary q = (''completed'', 2, 1, Some (17168 * us_per_day), True)"
    by auto
  have "collected_days q = 2 \<and> total_days q = 1 \<and> progress_percentage q = Inr 200"
    using q(2) by (simp add: job_summary_def progress_percentage_def py_truediv_def)
  moreover have "length (daily_prices (dbase fresh_run)) = 1"
    using fresh_run_summary by (metis length_map length_Cons list.size(3) One_nat_def)
  ultimately show ?thesis using step q(1) by blast
qed

lemma one_day_state_facts:
  "progress one_day_state ''bitcoin'' = Some one_day_progress"
  "total_requests (api_stats one_day_state) = 0"
  by (simp_all add: one_day_state_def one_day_progress_def start_collection_def
      initialize_collection_def start_dates_def save_progress_def upd_progress_def
      new_collector_def days_between_def us_per_day_def Let_def)

theorem C9_collected_days_witness:
  "progress one_day_state ''bitcoin'' = Some one_day_progress
   \<and> chart_env 1 (MarketChartReq ''bitcoin'' 1) = Ok (Chart two_points)
   \<and> process_market_chart_data two_points (17167 * us_per_day) \<noteq> []
   \<and> collected_days one_day_progress = 0 \<and> total_days one_day_progress = 1
   \<and> map_option collected_days
        (progress (snd (collect_page chart_env ''bitcoin'' (17167 * us_per_day) 1 1
                          (0, one_day_state\<lparr>dbase := eth_db\<rparr>))) ''bitcoin'') = Some 2"
proof -
  note p = one_day_state_facts(1)
  have e: "chart_env (total_requests (api_stats one_day_state) + 1)
             (MarketChartReq ''bitcoin'' (min 365 (1 - 0))) = Ok (Chart two_points)"
    by (simp add: chart_env_def)
  have c: "prices two_points = Some [(17167 * ms_per_day, 1000), (17167 * ms_per_day + 3600000, 1010)]"
    by (simp add: two_points_def)
  have d: "process_market_chart_data two_points (17167 * us_per_day) \<noteq> []"
    using two_points_data by auto
  from C9_collected_days_counts_every_record [where env = chart_env and tdn = 1 and tc = 0
      and cr = 1 and dbs = eth_db, OF p e c d]
  show ?thesis
    using p d two_points_data by (simp add: chart_env_def one_day_progress_def)
qed

end
